theory Spec2Isabelle
  imports Main "HOL-Library.Sublist"
begin

section \<open>Text\<close>

text \<open>
  A Python \<open>str\<close> is a \<^typ>\<open>string\<close>. The characters beyond ASCII that the source
  writes in its literals (the arrow of the prompts, the check mark of the messages) stand
  as their UTF-8 bytes. \<open>str.lower\<close>, \<open>str.strip\<close> and the classes \<open>\d\<close> and \<open>\s\<close> of
  the regular expressions are modelled on the ASCII letters, white space and digits, and
  leave every other byte alone: they are those of Python on a text of ASCII characters,
  and on the literals of the source.
\<close>

definition dq :: char where
  "dq = CHR 0x22"

definition nl :: string where
  "nl = [CHR 0x0A]"

definition arrow :: string where
  "arrow = [CHR 0xE2, CHR 0x86, CHR 0x92]"

definition lower_char :: "char \<Rightarrow> char" where
  "lower_char c =
     (case map_of (zip ''ABCDEFGHIJKLMNOPQRSTUVWXYZ'' ''abcdefghijklmnopqrstuvwxyz'') c of
        None \<Rightarrow> c
      | Some l \<Rightarrow> l)"

definition lower :: "string \<Rightarrow> string" where
  "lower s = map lower_char s"

text \<open>
  A text is its UTF-8 bytes. A byte \<open>10xxxxxx\<close> continues a code point; the others begin
  one, and a byte \<open>0xxxxxxx\<close> is one of ASCII.
\<close>

definition is_continuation :: "char \<Rightarrow> bool" where
  "is_continuation c = (case c of Char b0 b1 b2 b3 b4 b5 b6 b7 \<Rightarrow> b7 \<and> \<not> b6)"

definition is_ascii :: "char \<Rightarrow> bool" where
  "is_ascii c = (case c of Char b0 b1 b2 b3 b4 b5 b6 b7 \<Rightarrow> \<not> b7)"

text \<open>The code points of a text, each as its bytes.\<close>

function code_points :: "string \<Rightarrow> string list" where
  "code_points [] = []"
| "code_points (c # cs) =
     (c # takeWhile is_continuation cs) # code_points (dropWhile is_continuation cs)"
  by pat_completeness auto
termination
  by (relation "measure length") (auto simp: length_dropWhile_le less_Suc_eq_le)

text \<open>\<open>sub in s\<close>: \<open>sub\<close> occurs in \<open>s\<close> as a contiguous run.\<close>

fun contains :: "string \<Rightarrow> string \<Rightarrow> bool" where
  "contains sub [] = (sub = [])"
| "contains sub (c # cs) = (prefix sub (c # cs) \<or> contains sub cs)"

text \<open>\<open>any(word in s for word in words)\<close>\<close>

definition any_in :: "string list \<Rightarrow> string \<Rightarrow> bool" where
  "any_in ws s = list_ex (\<lambda>w. contains w s) ws"

text \<open>\<open>s.split(q)\<close> for a separator of one character.\<close>

fun split_on :: "char \<Rightarrow> string \<Rightarrow> string list" where
  "split_on q [] = [[]]"
| "split_on q (c # cs) =
     (if c = q then [] # split_on q cs
      else (case split_on q cs of
              [] \<Rightarrow> [[c]]
            | p # ps \<Rightarrow> (c # p) # ps))"

definition is_space :: "char \<Rightarrow> bool" where
  "is_space c = (c \<in> set [CHR 0x09, CHR 0x0A, CHR 0x0B, CHR 0x0C, CHR 0x0D,
                            CHR 0x1C, CHR 0x1D, CHR 0x1E, CHR 0x1F, CHR 0x20])"

definition strip :: "string \<Rightarrow> string" where
  "strip s = rev (dropWhile is_space (rev (dropWhile is_space s)))"

definition upper_char :: "char \<Rightarrow> char" where
  "upper_char c =
     (case map_of (zip ''abcdefghijklmnopqrstuvwxyz'' ''ABCDEFGHIJKLMNOPQRSTUVWXYZ'') c of
        None \<Rightarrow> c
      | Some u \<Rightarrow> u)"

text \<open>\<open>str.capitalize\<close>\<close>

fun capitalize :: "string \<Rightarrow> string" where
  "capitalize [] = []"
| "capitalize (c # cs) = upper_char c # lower cs"

definition is_digit :: "char \<Rightarrow> bool" where
  "is_digit c = (c \<in> set ''0123456789'')"

text \<open>\<open>\w\<close> of the regular expressions, on ASCII text.\<close>

definition is_word :: "char \<Rightarrow> bool" where
  "is_word c = (is_digit c \<or> c = CHR ''_'' \<or> lower_char c \<in> set ''abcdefghijklmnopqrstuvwxyz'')"

definition digit_val :: "char \<Rightarrow> nat" where
  "digit_val c = length (takeWhile (\<lambda>d. d \<noteq> c) ''0123456789'')"

definition digit_char :: "nat \<Rightarrow> char" where
  "digit_char n = ''0123456789'' ! n"

text \<open>\<open>int(s)\<close> for a run of digits, and \<open>str(n)\<close>.\<close>

definition nat_of_digits :: "string \<Rightarrow> nat" where
  "nat_of_digits s = foldl (\<lambda>a c. 10 * a + digit_val c) 0 s"

fun show_nat :: "nat \<Rightarrow> string" where
  "show_nat n = (if n < 10 then [digit_char n] else show_nat (n div 10) @ [digit_char (n mod 10)])"

declare show_nat.simps [simp del]

function show_digits :: "int \<Rightarrow> string" where
  "show_digits n =
     (if n < 10 then [digit_char (nat n)]
      else show_digits (n div 10) @ [digit_char (nat (n mod 10))])"
  by pat_completeness auto
termination
  by (relation "measure nat") auto

declare show_digits.simps [simp del]

definition show_int :: "int \<Rightarrow> string" where
  "show_int i = (if i < 0 then CHR ''-'' # show_digits (- i) else show_digits i)"

definition two_digits :: "nat \<Rightarrow> string" where
  "two_digits n = (if n < 10 then CHR ''0'' # show_nat n else show_nat n)"

text \<open>\<open>re.search\<close>: the leftmost place where the anchored matcher \<open>m\<close> succeeds.\<close>

fun re_search :: "(string \<Rightarrow> 'a option) \<Rightarrow> string \<Rightarrow> 'a option" where
  "re_search m [] = m []"
| "re_search m (c # cs) = (case m (c # cs) of Some r \<Rightarrow> Some r | None \<Rightarrow> re_search m cs)"

text \<open>An alternation of literal words, \<open>(w1|w2|...)\<close>: the first word that starts here.\<close>

definition match_words :: "string list \<Rightarrow> string \<Rightarrow> string option" where
  "match_words ws s = find (\<lambda>w. prefix w s) ws"

section \<open>Python dictionaries and JSON\<close>

text \<open>
  A \<open>dict\<close> with string keys is an association list in insertion order, one entry a key.
\<close>

fun dict_set :: "string \<Rightarrow> 'v \<Rightarrow> (string \<times> 'v) list \<Rightarrow> (string \<times> 'v) list" where
  "dict_set k v [] = [(k, v)]"
| "dict_set k v ((k', v') # d) = (if k = k' then (k, v) # d else (k', v') # dict_set k v d)"

definition dict_get :: "(string \<times> 'v) list \<Rightarrow> string \<Rightarrow> 'v option" where
  "dict_get d k = map_of d k"

text \<open>
  What \<open>json.loads\<close> returns. An integer literal is a Python \<open>int\<close>; a literal with a
  fraction or an exponent, \<open>NaN\<close> and the infinities are a \<open>float\<close>, kept as written.
\<close>

datatype json =
    JNull
  | JBool bool
  | JInt int
  | JFloat string
  | JStr string
  | JArr "json list"
  | JObj "(string \<times> json) list"

type_synonym dict = "(string \<times> json) list"

text \<open>
  Truth value of a Python object. A float is false when it is zero: when its mantissa has
  no digit other than 0 (underflow of a tiny literal to zero is left aside).
\<close>

definition float_nonzero :: "string \<Rightarrow> bool" where
  "float_nonzero s =
     (s \<in> set [''NaN'', ''Infinity'', ''-Infinity'']
      \<or> list_ex (\<lambda>c. c \<in> set ''123456789'') (takeWhile (\<lambda>c. c \<notin> set ''eE'') s))"

fun truthy :: "json \<Rightarrow> bool" where
  "truthy JNull = False"
| "truthy (JBool b) = b"
| "truthy (JInt i) = (i \<noteq> 0)"
| "truthy (JFloat s) = float_nonzero s"
| "truthy (JStr s) = (s \<noteq> [])"
| "truthy (JArr xs) = (xs \<noteq> [])"
| "truthy (JObj d) = (d \<noteq> [])"

subsection \<open>The decoder\<close>

definition backslash :: char where
  "backslash = CHR 0x5C"

definition is_hex :: "char \<Rightarrow> bool" where
  "is_hex c = (c \<in> set ''0123456789abcdefABCDEF'')"

definition hex_val :: "char \<Rightarrow> nat" where
  "hex_val c = length (takeWhile (\<lambda>d. d \<noteq> lower_char c) ''0123456789abcdef'')"

definition hex4 :: "char \<Rightarrow> char \<Rightarrow> char \<Rightarrow> char \<Rightarrow> nat" where
  "hex4 a b c d = ((hex_val a * 16 + hex_val b) * 16 + hex_val c) * 16 + hex_val d"

text \<open>The UTF-8 bytes of a code point.\<close>

definition utf8 :: "nat \<Rightarrow> string" where
  "utf8 n =
     (if n < 0x80 then [char_of n]
      else if n < 0x800 then [char_of (0xC0 + n div 64), char_of (0x80 + n mod 64)]
      else if n < 0x10000 then
        [char_of (0xE0 + n div 4096), char_of (0x80 + n div 64 mod 64), char_of (0x80 + n mod 64)]
      else
        [char_of (0xF0 + n div 262144), char_of (0x80 + n div 4096 mod 64),
         char_of (0x80 + n div 64 mod 64), char_of (0x80 + n mod 64)])"

definition unescape :: "char \<Rightarrow> char option" where
  "unescape e =
     map_of [(dq, dq), (backslash, backslash), (CHR ''/'', CHR ''/''), (CHR ''b'', CHR 0x08),
             (CHR ''f'', CHR 0x0C), (CHR ''n'', CHR 0x0A), (CHR ''r'', CHR 0x0D),
             (CHR ''t'', CHR 0x09)] e"

text \<open>A character below 0x20.\<close>

definition is_control :: "char \<Rightarrow> bool" where
  "is_control c = (case c of Char b0 b1 b2 b3 b4 b5 b6 b7 \<Rightarrow> \<not> b5 \<and> \<not> b6 \<and> \<not> b7)"

text \<open>
  A \<open>\uXXXX\<close> escape at the head of the text: its code point and the characters it takes
  (a high surrogate followed by a low one is one code point).
\<close>

definition unicode_escape :: "string \<Rightarrow> (nat \<times> nat) option" where
  "unicode_escape s =
     (case s of
        a # b # c # d # r \<Rightarrow>
          if is_hex a \<and> is_hex b \<and> is_hex c \<and> is_hex d then
            (let hi = hex4 a b c d in
             case r of
               bs # u # a2 # b2 # c2 # d2 # r2 \<Rightarrow>
                 if 0xD800 \<le> hi \<and> hi \<le> 0xDBFF \<and> bs = backslash \<and> u = CHR ''u''
                    \<and> is_hex a2 \<and> is_hex b2 \<and> is_hex c2 \<and> is_hex d2
                    \<and> 0xDC00 \<le> hex4 a2 b2 c2 d2 \<and> hex4 a2 b2 c2 d2 \<le> 0xDFFF
                 then Some (0x10000 + (hi - 0xD800) * 1024 + (hex4 a2 b2 c2 d2 - 0xDC00), 10)
                 else Some (hi, 4)
             | _ \<Rightarrow> Some (hi, 4))
          else None
      | _ \<Rightarrow> None)"

text \<open>
  The text of a string literal after its opening quote: the decoded string and the number
  of characters read, closing quote included. \<open>skip\<close> characters at the head belong to
  an escape that is already decoded.
\<close>

fun scan_string :: "nat \<Rightarrow> string \<Rightarrow> (string \<times> nat) option" where
  "scan_string skip [] = None"
| "scan_string (Suc skip) (c # cs) =
     map_option (\<lambda>(s, n). (s, Suc n)) (scan_string skip cs)"
| "scan_string 0 (c # cs) =
     (if c = dq then Some ([], 1)
      else if c = backslash then
        (case cs of
           [] \<Rightarrow> None
         | e # r \<Rightarrow>
             if e = CHR ''u'' then
               (case unicode_escape r of
                  None \<Rightarrow> None
                | Some (cp, k) \<Rightarrow>
                    map_option (\<lambda>(s, n). (utf8 cp @ s, Suc n)) (scan_string (Suc k) cs))
             else
               (case unescape e of
                  None \<Rightarrow> None
                | Some ch \<Rightarrow> map_option (\<lambda>(s, n). (ch # s, Suc n)) (scan_string 1 cs)))
      else if is_control c then None
      else map_option (\<lambda>(s, n). (c # s, Suc n)) (scan_string 0 cs))"

datatype token = TLBrace | TRBrace | TLBrack | TRBrack | TColon | TComma | TVal json

text \<open>
  A number literal at the head of the text,
  \<open>(-?(?:0|[1-9]\d*))(\.\d+)?([eE][-+]?\d+)?\<close>: its value and its length.
\<close>

definition scan_number :: "string \<Rightarrow> (json \<times> nat) option" where
  "scan_number s =
     (let sign = (if prefix ''-'' s then ''-'' else []);
          s1 = drop (length sign) s;
          ds = takeWhile is_digit s1;
          ipart = (if prefix ''0'' ds then ''0'' else ds);
          s2 = drop (length ipart) s1;
          fs = (if prefix ''.'' s2 then takeWhile is_digit (drop 1 s2) else []);
          frac = (if fs = [] then [] else CHR ''.'' # fs);
          s3 = drop (length frac) s2;
          e = (if prefix ''e'' s3 \<or> prefix ''E'' s3 then take 1 s3 else []);
          s4 = drop (length e) s3;
          esign = (if prefix ''+'' s4 \<or> prefix ''-'' s4 then take 1 s4 else []);
          es = takeWhile is_digit (drop (length esign) s4);
          ex = (if e = [] \<or> es = [] then [] else e @ esign @ es);
          text = sign @ ipart @ frac @ ex
      in if ipart = [] then None
         else if frac = [] \<and> ex = [] then
           Some (JInt ((if sign = [] then 1 else - 1) * int (nat_of_digits ipart)), length text)
         else Some (JFloat text, length text))"

definition token_at :: "string \<Rightarrow> (token \<times> nat) option" where
  "token_at s =
     (if prefix [dq] s then map_option (\<lambda>(v, n). (TVal (JStr v), Suc n)) (scan_string 0 (drop 1 s))
      else if prefix ''{'' s then Some (TLBrace, 1)
      else if prefix ''}'' s then Some (TRBrace, 1)
      else if prefix ''['' s then Some (TLBrack, 1)
      else if prefix '']'' s then Some (TRBrack, 1)
      else if prefix '':'' s then Some (TColon, 1)
      else if prefix '','' s then Some (TComma, 1)
      else if prefix ''null'' s then Some (TVal JNull, 4)
      else if prefix ''true'' s then Some (TVal (JBool True), 4)
      else if prefix ''false'' s then Some (TVal (JBool False), 5)
      else (case scan_number s of
              Some (v, n) \<Rightarrow> Some (TVal v, n)
            | None \<Rightarrow>
                if prefix ''NaN'' s then Some (TVal (JFloat ''NaN''), 3)
                else if prefix ''Infinity'' s then Some (TVal (JFloat ''Infinity''), 8)
                else if prefix ''-Infinity'' s then Some (TVal (JFloat ''-Infinity''), 9)
                else None))"

definition json_ws :: "char \<Rightarrow> bool" where
  "json_ws c = (c \<in> set [CHR 0x20, CHR 0x09, CHR 0x0A, CHR 0x0D])"

text \<open>
  The tokens of a text; \<open>skip\<close> counts the characters of the token read last that are
  still ahead.
\<close>

fun lex :: "nat \<Rightarrow> string \<Rightarrow> token list option" where
  "lex skip [] = Some []"
| "lex (Suc skip) (c # cs) = lex skip cs"
| "lex 0 (c # cs) =
     (if json_ws c then lex 0 cs
      else (case token_at (c # cs) of
              None \<Rightarrow> None
            | Some (t, n) \<Rightarrow> map_option ((#) t) (lex (n - 1) cs)))"

text \<open>
  The grammar, as a machine with a stack of the arrays and objects that are open: an open
  array holds its elements so far, an open object its entries so far and the key whose
  value is being read.
\<close>

datatype frame = FArr "json list" | FObj dict string

datatype pstate =
    PValue
  | PArrFirst
  | PKeyFirst
  | PKey dict
  | PColon dict string
  | PAfter json

definition begin_value :: "token \<Rightarrow> pstate option" where
  "begin_value t =
     (case t of
        TVal v \<Rightarrow> Some (PAfter v)
      | TLBrack \<Rightarrow> Some PArrFirst
      | TLBrace \<Rightarrow> Some PKeyFirst
      | _ \<Rightarrow> None)"

fun step :: "pstate \<Rightarrow> frame list \<Rightarrow> token \<Rightarrow> (pstate \<times> frame list) option" where
  "step PValue stk t = map_option (\<lambda>s. (s, stk)) (begin_value t)"
| "step PArrFirst stk t =
     (if t = TRBrack then Some (PAfter (JArr []), stk)
      else map_option (\<lambda>s. (s, FArr [] # stk)) (begin_value t))"
| "step PKeyFirst stk t =
     (case t of
        TRBrace \<Rightarrow> Some (PAfter (JObj []), stk)
      | TVal (JStr k) \<Rightarrow> Some (PColon [] k, stk)
      | _ \<Rightarrow> None)"
| "step (PKey d) stk t =
     (case t of
        TVal (JStr k) \<Rightarrow> Some (PColon d k, stk)
      | _ \<Rightarrow> None)"
| "step (PColon d k) stk t = (if t = TColon then Some (PValue, FObj d k # stk) else None)"
| "step (PAfter v) [] t = None"
| "step (PAfter v) (FArr xs # stk) t =
     (case t of
        TComma \<Rightarrow> Some (PValue, FArr (xs @ [v]) # stk)
      | TRBrack \<Rightarrow> Some (PAfter (JArr (xs @ [v])), stk)
      | _ \<Rightarrow> None)"
| "step (PAfter v) (FObj d k # stk) t =
     (case t of
        TComma \<Rightarrow> Some (PKey (dict_set k v d), stk)
      | TRBrace \<Rightarrow> Some (PAfter (JObj (dict_set k v d)), stk)
      | _ \<Rightarrow> None)"

fun run :: "pstate \<Rightarrow> frame list \<Rightarrow> token list \<Rightarrow> json option" where
  "run st stk [] = (case (st, stk) of (PAfter v, []) \<Rightarrow> Some v | _ \<Rightarrow> None)"
| "run st stk (t # ts) =
     (case step st stk t of
        None \<Rightarrow> None
      | Some (st', stk') \<Rightarrow> run st' stk' ts)"

text \<open>\<open>json.loads\<close>; \<open>None\<close> when it raises.\<close>

definition json_loads :: "string \<Rightarrow> json option" where
  "json_loads s = (case lex 0 s of None \<Rightarrow> None | Some ts \<Rightarrow> run PValue [] ts)"

section \<open>Time\<close>

text \<open>
  A naive \<open>datetime\<close> is its count of microseconds since 0001-01-01T00:00:00, so that
  comparing two of them compares the counts and adding a \<open>timedelta\<close> adds to the count.
\<close>

type_synonym datetime = int

definition us_minute :: int where
  "us_minute = 60000000"

definition us_day :: int where
  "us_day = 86400000000"

text \<open>Hour \<open>h\<close>, minute \<open>m\<close> of the day of \<open>d\<close>, seconds and microseconds zero.\<close>

definition at_time :: "datetime \<Rightarrow> int \<Rightarrow> int \<Rightarrow> datetime" where
  "at_time d h m = (d div us_day) * us_day + (h * 60 + m) * us_minute"

definition valid_hour :: "int \<Rightarrow> bool" where
  "valid_hour h = (0 \<le> h \<and> h < 24)"

definition valid_minute :: "int \<Rightarrow> bool" where
  "valid_minute m = (0 \<le> m \<and> m < 60)"

text \<open>
  \<open>d.replace(hour=h, minute=m, second=0, microsecond=0)\<close>; \<open>None\<close> is its \<open>ValueError\<close>.
\<close>

definition replace_time :: "datetime \<Rightarrow> int \<Rightarrow> int \<Rightarrow> datetime option" where
  "replace_time d h m = (if valid_hour h \<and> valid_minute m then Some (at_time d h m) else None)"

definition add_minutes :: "datetime \<Rightarrow> int \<Rightarrow> datetime" where
  "add_minutes d k = d + k * us_minute"

definition add_days :: "datetime \<Rightarrow> int \<Rightarrow> datetime" where
  "add_days d k = d + k * us_day"

text \<open>The last instant that a \<open>datetime\<close> holds, 9999-12-31T23:59:59.999999.\<close>

definition dt_max :: datetime where
  "dt_max = 3652059 * us_day - 1"

text \<open>
  A \<open>timedelta\<close> of so many microseconds exists: between \<open>timedelta.min\<close>, which is
  -999999999 days, and \<open>timedelta.max\<close>, which is 999999999 days 23:59:59.999999.
\<close>

definition timedelta_ok :: "int \<Rightarrow> bool" where
  "timedelta_ok us = (- 999999999 * us_day \<le> us \<and> us < 1000000000 * us_day)"

text \<open>
  \<open>d + timedelta(microseconds=us)\<close>; \<open>None\<close> is the \<open>OverflowError\<close> of a
  \<open>timedelta\<close> or of a sum that does not exist.
\<close>

definition shift :: "datetime \<Rightarrow> int \<Rightarrow> datetime option" where
  "shift d us =
     (if timedelta_ok us \<and> 0 \<le> d + us \<and> d + us \<le> dt_max then Some (d + us) else None)"

definition toordinal :: "datetime \<Rightarrow> int" where
  "toordinal d = d div us_day + 1"

text \<open>Monday is 0.\<close>

definition weekday :: "datetime \<Rightarrow> int" where
  "weekday d = (toordinal d + 6) mod 7"

definition hour_of :: "datetime \<Rightarrow> int" where
  "hour_of d = d mod us_day div (60 * us_minute)"

definition minute_of :: "datetime \<Rightarrow> int" where
  "minute_of d = d mod us_day div us_minute mod 60"

text \<open>Year, month and day of a day number, in the proleptic Gregorian calendar.\<close>

definition days_before_month :: "int \<Rightarrow> int" where
  "days_before_month m = [0, 0, 31, 59, 90, 120, 151, 181, 212, 243, 273, 304, 334] ! nat m"

definition days_in_month :: "int \<Rightarrow> int" where
  "days_in_month m = [0, 31, 28, 31, 30, 31, 30, 31, 31, 30, 31, 30, 31] ! nat m"

definition ord2ymd :: "int \<Rightarrow> int \<times> int \<times> int" where
  "ord2ymd n0 =
     (let n = n0 - 1;
          n400 = n div 146097; n = n mod 146097;
          n100 = n div 36524; n = n mod 36524;
          n4 = n div 1461; n = n mod 1461;
          n1 = n div 365; n = n mod 365;
          year = n400 * 400 + 1 + n100 * 100 + n4 * 4 + n1
      in if n1 = 4 \<or> n100 = 4 then (year - 1, 12, 31)
         else
           (let leapyear = (n1 = 3 \<and> (n4 \<noteq> 24 \<or> n100 = 3));
                month = (n + 50) div 32;
                preceding = days_before_month month + (if month > 2 \<and> leapyear then 1 else 0)
            in if preceding > n then
                 (let month = month - 1;
                      preceding = preceding
                        - (days_in_month month + (if month = 2 \<and> leapyear then 1 else 0))
                  in (year, month, n - preceding + 1))
               else (year, month, n - preceding + 1)))"

definition month_name :: "int \<Rightarrow> string" where
  "month_name m =
     [[], ''January'', ''February'', ''March'', ''April'', ''May'', ''June'', ''July'',
      ''August'', ''September'', ''October'', ''November'', ''December''] ! nat m"

text \<open>\<open>d.strftime('%I:%M %p')\<close>\<close>

definition strftime_clock :: "datetime \<Rightarrow> string" where
  "strftime_clock d =
     (let h = hour_of d;
          h12 = (if h mod 12 = 0 then 12 else h mod 12)
      in two_digits (nat h12) @ '':'' @ two_digits (nat (minute_of d))
         @ (if h < 12 then '' AM'' else '' PM''))"

text \<open>\<open>d.strftime('%B %d, %Y at %I:%M %p')\<close>\<close>

definition strftime_long :: "datetime \<Rightarrow> string" where
  "strftime_long d =
     (case ord2ymd (toordinal d) of
        (y, m, dd) \<Rightarrow>
          month_name m @ '' '' @ two_digits (nat dd) @ '', '' @ show_int y @ '' at ''
          @ strftime_clock d)"

section \<open>The world around the agent\<close>

datatype error = AttributeError | ValueError | TypeError | OverflowError | ApiError

text \<open>
  A start or end of an event that the calendar API lists: a naive datetime (an all-day
  event's date), a datetime with a UTC offset (which cannot be compared with a naive one),
  or a value that \<open>datetime.fromisoformat\<close> does not read.
\<close>

datatype evtime = Naive datetime | Aware | Unreadable

record cal_event =
  ev_start :: evtime
  ev_end :: evtime

text \<open>The arguments of \<open>create_event\<close>.\<close>

record event_request =
  req_title :: string
  req_start_time :: datetime
  req_end_time :: datetime
  req_description :: string
  req_attendees :: "string list"

text \<open>
  The collaborators, as the agent sees them during a call:
  \<^item> \<open>clock\<close>: the value of the n-th \<open>datetime.now()\<close>;
  \<^item> \<open>llm\<close>: \<open>None\<close> when the language model is not configured, else the text it
    generates for a prompt, \<open>None\<close> when the request raises;
  \<^item> \<open>mock_mode\<close> of the calendar service;
  \<^item> \<open>api_list\<close>: the events of the calendar between two times, \<open>None\<close> when the
    request raises;
  \<^item> \<open>api_insert\<close>: the id and the link of the event that the calendar creates,
    \<open>None\<close> when the request raises;
  \<^item> \<open>epoch_seconds\<close>: \<open>int(d.timestamp())\<close>, which depends on the host and its
    time zone, or the exception that it raises for a time that has no timestamp there;
  \<^item> \<open>py_repr\<close>: the text that Python's \<open>str\<close> gives a float, a list or a
    dictionary;
  \<^item> \<open>word_char\<close>: whether \<open>\w\<close> of a regular expression matches a code point
    beyond ASCII, given as its UTF-8 bytes.
\<close>

record env =
  clock :: "nat \<Rightarrow> datetime"
  llm :: "(string \<Rightarrow> string option) option"
  mock_mode :: bool
  api_list :: "datetime \<Rightarrow> datetime \<Rightarrow> cal_event list option"
  api_insert :: "event_request \<Rightarrow> (string \<times> string option) option"
  epoch_seconds :: "datetime \<Rightarrow> error + int"
  py_repr :: "json \<Rightarrow> string"
  word_char :: "string \<Rightarrow> bool"

text \<open>The dictionaries of the source, as records.\<close>

record slot =
  start_time :: datetime
  end_time :: datetime
  available :: bool

record cal_slot = slot +
  title :: string

text \<open>
  A slot as the agent offers it. The source keeps the two times as ISO-8601 text and reads
  them back with \<open>datetime.fromisoformat\<close>; the record keeps the times themselves.
\<close>

record offered_slot = slot +
  display :: string

record outcome =
  success :: bool
  message :: string

record created_event = outcome +
  event_id :: string
  event_link :: "string option"

record booking_details =
  booked_start_time :: datetime
  booked_end_time :: datetime
  booked_title :: string
  booking_id :: string
  booked_event_link :: "string option"

record booking_result = outcome +
  details :: "booking_details option"

record chat_message =
  role :: string
  content :: string

record session =
  messages :: "chat_message list"
  user_intent :: string
  extracted_info :: dict
  available_slots :: "offered_slot list"
  booking_confirmed :: bool
  session_id :: string

text \<open>
  What a call can change: the session store of the agent, the calls of \<open>create_event\<close>
  made so far, and the number of times the clock has been read.
\<close>

record world =
  sessions :: "string \<rightharpoonup> session"
  create_event_calls :: "event_request list"
  ticks :: nat

definition now :: "env \<Rightarrow> world \<Rightarrow> datetime \<times> world" where
  "now env w = (clock env (ticks w), w\<lparr>ticks := Suc (ticks w)\<rparr>)"

section \<open>The calendar service\<close>

definition slot_title :: "int \<Rightarrow> string" where
  "slot_title duration_minutes = ''Available '' @ show_int duration_minutes @ ''min slot''"

definition make_slot :: "datetime \<Rightarrow> datetime \<Rightarrow> int \<Rightarrow> cal_slot" where
  "make_slot s e duration_minutes =
     \<lparr>start_time = s, end_time = e, available = True, title = slot_title duration_minutes\<rparr>"

text \<open>
  The loop of \<open>_get_mock_available_slots\<close> over \<open>slot_times\<close>. The end of a slot is
  computed before the clock is read.
\<close>

fun mock_slots_loop ::
  "env \<Rightarrow> datetime \<Rightarrow> int \<Rightarrow> int \<Rightarrow> int list \<Rightarrow> world
   \<Rightarrow> (error + cal_slot list) \<times> world" where
  "mock_slots_loop env date duration_minutes end_hour [] w = (Inr [], w)"
| "mock_slots_loop env date duration_minutes end_hour (hour # hours) w =
     (if hour < end_hour then
        (let slot_start = at_time date hour 0 in
         case shift slot_start (duration_minutes * us_minute) of
           None \<Rightarrow> (Inl OverflowError, w)
         | Some slot_end \<Rightarrow>
             (case now env w of
                (t, w1) \<Rightarrow>
                  (case mock_slots_loop env date duration_minutes end_hour hours w1 of
                     (Inl e, w2) \<Rightarrow> (Inl e, w2)
                   | (Inr rest, w2) \<Rightarrow>
                       (Inr ((if t < slot_start
                              then [make_slot slot_start slot_end duration_minutes]
                              else []) @ rest), w2))))
      else mock_slots_loop env date duration_minutes end_hour hours w)"

definition slot_times :: "int list" where
  "slot_times = [9, 11, 14, 16]"

definition get_mock_available_slots ::
  "env \<Rightarrow> datetime \<Rightarrow> int \<Rightarrow> int \<times> int \<Rightarrow> world \<Rightarrow> (error + cal_slot list) \<times> world" where
  "get_mock_available_slots env date duration_minutes working_hours w =
     (case working_hours of
        (start_hour, end_hour) \<Rightarrow>
          if valid_hour start_hour \<and> valid_hour end_hour then
            (case mock_slots_loop env date duration_minutes end_hour slot_times w of
               (Inl e, w') \<Rightarrow> (Inl e, w')
             | (Inr slots, w') \<Rightarrow> (Inr (take 3 slots), w'))
          else (Inl ValueError, w))"

text \<open>
  The inner loop of \<open>_get_real_available_slots\<close>: does an event overlap the slot
  from \<open>current_time\<close> to \<open>slot_end\<close>? Both times of an event are read before they are
  compared.
\<close>

fun conflicts :: "cal_event list \<Rightarrow> datetime \<Rightarrow> datetime \<Rightarrow> error + bool" where
  "conflicts [] current_time slot_end = Inr False"
| "conflicts (event # events) current_time slot_end =
     (if ev_start event = Unreadable \<or> ev_end event = Unreadable then Inl ValueError
      else (case ev_end event of
              Naive event_end \<Rightarrow>
                if current_time < event_end then
                  (case ev_start event of
                     Naive event_start \<Rightarrow>
                       if slot_end > event_start then Inr True
                       else conflicts events current_time slot_end
                   | _ \<Rightarrow> Inl TypeError)
                else conflicts events current_time slot_end
            | _ \<Rightarrow> Inl TypeError))"

text \<open>
  \<open>is_available and current_time > datetime.now()\<close>: the clock is read only for a slot
  that no event overlaps.
\<close>

definition still_ahead :: "env \<Rightarrow> bool \<Rightarrow> datetime \<Rightarrow> world \<Rightarrow> bool \<times> world" where
  "still_ahead env busy current_time w =
     (if busy then (False, w)
      else (case now env w of (t, w') \<Rightarrow> (current_time > t, w')))"

text \<open>The \<open>while\<close> loop of \<open>_get_real_available_slots\<close>, a candidate every 30 minutes.\<close>

function real_slots_loop ::
  "env \<Rightarrow> cal_event list \<Rightarrow> int \<Rightarrow> datetime \<Rightarrow> datetime \<Rightarrow> world
   \<Rightarrow> (error + cal_slot list) \<times> world" where
  "real_slots_loop env events duration_minutes day_end current_time w =
     (case shift current_time (duration_minutes * us_minute) of
        None \<Rightarrow> (Inl OverflowError, w)
      | Some slot_end \<Rightarrow>
          if slot_end \<le> day_end then
            (case conflicts events current_time slot_end of
               Inl e \<Rightarrow> (Inl e, w)
             | Inr busy \<Rightarrow>
                 (case still_ahead env busy current_time w of
                    (keep, w1) \<Rightarrow>
                      (case shift current_time (30 * us_minute) of
                         None \<Rightarrow> (Inl OverflowError, w1)
                       | Some next_time \<Rightarrow>
                           (case real_slots_loop env events duration_minutes day_end
                                   next_time w1 of
                              (Inl e, w2) \<Rightarrow> (Inl e, w2)
                            | (Inr rest, w2) \<Rightarrow>
                                (Inr ((if keep
                                       then [make_slot current_time slot_end duration_minutes]
                                       else []) @ rest), w2)))))
          else (Inr [], w))"
  by pat_completeness auto
termination
  by (relation "measure (\<lambda>(env, events, duration_minutes, day_end, current_time, w).
                  nat (day_end - (current_time + duration_minutes * us_minute) + 1))")
     (auto simp: shift_def us_minute_def split: if_splits)

declare real_slots_loop.simps [simp del]

definition get_real_available_slots ::
  "env \<Rightarrow> datetime \<Rightarrow> int \<Rightarrow> int \<times> int \<Rightarrow> world \<Rightarrow> (error + cal_slot list) \<times> world" where
  "get_real_available_slots env date duration_minutes working_hours w =
     (case working_hours of
        (start_hour, end_hour) \<Rightarrow>
          if valid_hour start_hour \<and> valid_hour end_hour then
            (let day_start = at_time date start_hour 0;
                 day_end = at_time date end_hour 0
             in case api_list env day_start day_end of
                  None \<Rightarrow> (Inl ApiError, w)
                | Some events \<Rightarrow>
                    (case real_slots_loop env events duration_minutes day_end day_start w of
                       (Inl e, w') \<Rightarrow> (Inl e, w')
                     | (Inr slots, w') \<Rightarrow> (Inr (take 5 slots), w')))
          else (Inl ValueError, w))"

definition get_available_slots ::
  "env \<Rightarrow> datetime \<Rightarrow> int \<Rightarrow> int \<times> int \<Rightarrow> world \<Rightarrow> (error + cal_slot list) \<times> world" where
  "get_available_slots env date duration_minutes working_hours w =
     (if mock_mode env then get_mock_available_slots env date duration_minutes working_hours w
      else (case get_real_available_slots env date duration_minutes working_hours w of
              (Inr slots, w') \<Rightarrow> (Inr slots, w')
            | (Inl e, w') \<Rightarrow>
                get_mock_available_slots env date duration_minutes working_hours w'))"

definition check_mark :: string where
  "check_mark = [CHR 0xE2, CHR 0x9C, CHR 0x85]"

definition quoted :: "string \<Rightarrow> string" where
  "quoted s = [CHR 0x27] @ s @ [CHR 0x27]"

text \<open>
  \<open>_create_mock_event\<close>. The id is made of \<open>int(start_time.timestamp())\<close>, whose
  exception nothing catches.
\<close>

definition create_mock_event :: "env \<Rightarrow> event_request \<Rightarrow> error + created_event" where
  "create_mock_event env req =
     (case epoch_seconds env (req_start_time req) of
        Inl e \<Rightarrow> Inl e
      | Inr seconds \<Rightarrow>
          (let eid = ''mock_event_'' @ show_int seconds in
           Inr \<lparr>success = True,
                message = check_mark @ '' Mock event '' @ quoted (req_title req)
                          @ '' created for '' @ strftime_long (req_start_time req),
                event_id = eid,
                event_link = Some (''https://calendar.google.com/calendar/event?eid='' @ eid)\<rparr>))"

text \<open>\<open>_create_real_event\<close>; \<open>None\<close> when it raises.\<close>

definition create_real_event :: "env \<Rightarrow> event_request \<Rightarrow> created_event option" where
  "create_real_event env req =
     (case api_insert env req of
        None \<Rightarrow> None
      | Some (eid, link) \<Rightarrow>
          Some \<lparr>success = True,
                message = check_mark @ '' Event '' @ quoted (req_title req) @ '' created for ''
                          @ strftime_long (req_start_time req),
                event_id = eid,
                event_link = link\<rparr>)"

text \<open>
  \<open>create_event\<close>. The world records the call; the mock event is made in the
  \<open>except\<close> branch, outside the \<open>try\<close>.
\<close>

definition create_event ::
  "env \<Rightarrow> event_request \<Rightarrow> world \<Rightarrow> (error + created_event) \<times> world" where
  "create_event env req w =
     (let w' = w\<lparr>create_event_calls := create_event_calls w @ [req]\<rparr> in
      if mock_mode env then (create_mock_event env req, w')
      else (case create_real_event env req of
              Some r \<Rightarrow> (Inr r, w')
            | None \<Rightarrow> (create_mock_event env req, w')))"

section \<open>The agent's answers without the language model\<close>

text \<open>
  \<open>json.dumps\<close>. The strings that the agent writes are plain ASCII words; a quote, a
  backslash and the named control characters are escaped, and characters beyond ASCII,
  which \<open>json.dumps\<close> writes as \<open>\u\<close> escapes, do not occur.
\<close>

definition dumps_char :: "char \<Rightarrow> string" where
  "dumps_char c =
     (case map_of [(dq, [backslash, dq]), (backslash, [backslash, backslash]),
                   (CHR 0x0A, [backslash, CHR ''n'']), (CHR 0x0D, [backslash, CHR ''r'']),
                   (CHR 0x09, [backslash, CHR ''t'']), (CHR 0x08, [backslash, CHR ''b'']),
                   (CHR 0x0C, [backslash, CHR ''f''])] c of
        None \<Rightarrow> [c]
      | Some e \<Rightarrow> e)"

definition dumps_str :: "string \<Rightarrow> string" where
  "dumps_str s = [dq] @ concat (map dumps_char s) @ [dq]"

fun join :: "string \<Rightarrow> string list \<Rightarrow> string" where
  "join sep [] = []"
| "join sep [x] = x"
| "join sep (x # y # ys) = x @ sep @ join sep (y # ys)"

fun json_dumps :: "json \<Rightarrow> string" where
  "json_dumps JNull = ''null''"
| "json_dumps (JBool b) = (if b then ''true'' else ''false'')"
| "json_dumps (JInt i) = show_int i"
| "json_dumps (JFloat s) = s"
| "json_dumps (JStr s) = dumps_str s"
| "json_dumps (JArr xs) = ''['' @ join '', '' (map json_dumps xs) @ '']''"
| "json_dumps (JObj d) =
     ''{'' @ join '', '' (map (\<lambda>(k, v). dumps_str k @ '': '' @ json_dumps v) d) @ ''}''"

text \<open>
  The dictionary that \<open>_get_fallback_response\<close> builds for an extraction prompt, from
  the lower-cased user message.
\<close>

definition fallback_extract :: "string \<Rightarrow> dict" where
  "fallback_extract user_msg =
     (let result = [(''has_time_info'', JBool False)] in
      if any_in [''tomorrow'', ''today'', ''monday'', ''tuesday'', ''wednesday'', ''thursday'',
                 ''friday'', ''saturday'', ''sunday'', ''next week'', ''pm'', ''am'',
                 ''afternoon'', ''morning'', ''evening''] user_msg
      then
        (let result = dict_set ''has_time_info'' (JBool True) result;
             result =
               (if contains ''tomorrow'' user_msg then dict_set ''day'' (JStr ''tomorrow'') result
                else if contains ''today'' user_msg then dict_set ''day'' (JStr ''today'') result
                else if contains ''friday'' user_msg then dict_set ''day'' (JStr ''Friday'') result
                else if contains ''monday'' user_msg then dict_set ''day'' (JStr ''Monday'') result
                else if contains ''next week'' user_msg
                then dict_set ''day'' (JStr ''next week'') result
                else result);
             result =
               (if contains ''2 pm'' user_msg \<or> contains ''2pm'' user_msg
                then dict_set ''time'' (JStr ''2 PM'') result
                else if contains ''afternoon'' user_msg
                then dict_set ''time'' (JStr ''afternoon'') result
                else if contains ''morning'' user_msg
                then dict_set ''time'' (JStr ''morning'') result
                else result)
         in if contains ''call'' user_msg then dict_set ''type'' (JStr ''call'') result
            else if contains ''meeting'' user_msg then dict_set ''type'' (JStr ''meeting'') result
            else dict_set ''type'' (JStr ''appointment'') result)
      else result)"

text \<open>\<open>CalendarBookingAgent._get_fallback_response\<close>\<close>

definition get_fallback_response :: "string \<Rightarrow> string" where
  "get_fallback_response prompt =
     (let prompt_lower = lower prompt in
      if contains ''intent'' prompt_lower \<and> contains ''analyze this user message'' prompt_lower
      then
        (if dq \<in> set prompt then
           (let user_msg = lower (split_on dq prompt ! 1) in
            if any_in [''schedule'', ''book'', ''meeting'', ''call'', ''appointment''] user_msg
            then ''book_appointment''
            else if any_in [''free'', ''available'', ''availability'', ''time''] user_msg
            then ''check_availability''
            else ''general_conversation'')
         else ''book_appointment'')
      else if contains ''extract booking information'' prompt_lower then
        (if dq \<in> set prompt then
           (let user_msg = lower (split_on dq prompt ! 1) in
            json_dumps (JObj (fallback_extract user_msg)))
         else ''{'' @ [dq] @ ''has_time_info'' @ [dq] @ '': false}'')
      else if contains ''calendar booking assistant'' prompt_lower then
        (if dq \<in> set prompt then
           (let user_msg = lower (split_on dq prompt ! 1) in
            if any_in [''hi'', ''hello'', ''hey''] user_msg
            then ''Hi! I'' @ [CHR 0x27]
                 @ ''m your calendar assistant. What would you like to schedule today?''
            else if any_in [''help'', ''what'', ''how''] user_msg
            then ''I can help you schedule meetings, check availability, and book appointments. What would you like to schedule?''
            else ''I'' @ [CHR 0x27]
                 @ ''d be happy to help you schedule something! What would you like to book?'')
         else ''I can help you schedule appointments. What would you like to book?'')
      else ''I can help you schedule appointments. What would you like to book?'')"

section \<open>The agent\<close>

text \<open>
  The three prompts; each is a text, the message between double quotes, and a text.
\<close>

definition intent_prompt_head :: string where
  "intent_prompt_head = concat
     [''You are a smart calendar booking assistant. Analyze this user message and determine their intent.'', nl,
      nl,
      ''User message: '']"

definition intent_prompt_tail :: string where
  "intent_prompt_tail = concat
     [nl,
      nl,
      ''Intent categories:'', nl,
      ''- book_appointment: User wants to schedule/book a meeting, call, appointment, or event'', nl,
      ''- check_availability: User is asking about free time, availability, or when they'', [CHR 0x27], ''re free'', nl,
      ''- general_conversation: Greetings, questions, or unclear requests'', nl,
      nl,
      ''Examples:'', nl,
      ''- '', [dq], ''I want to schedule a call'', [dq], '' '', arrow, '' book_appointment'', nl,
      ''- '', [dq], ''Book a meeting for tomorrow'', [dq], '' '', arrow, '' book_appointment'', nl,
      ''- '', [dq], ''Do you have any free time?'', [dq], '' '', arrow, '' check_availability'', nl,
      ''- '', [dq], ''When am I available?'', [dq], '' '', arrow, '' check_availability'', nl,
      ''- '', [dq], ''Hi there'', [dq], '' '', arrow, '' general_conversation'', nl,
      nl,
      ''Respond with ONLY the intent name (book_appointment, check_availability, or general_conversation).'']"

definition extract_prompt_head :: string where
  "extract_prompt_head = concat
     [''You are a smart calendar assistant. Extract booking details from this message.'', nl,
      nl,
      ''User message: '']"

definition extract_prompt_tail :: string where
  "extract_prompt_tail = concat
     [nl,
      nl,
      ''Extract these details:'', nl,
      ''- day: The day mentioned (today, tomorrow, Monday, Friday, next week, etc.)'', nl,
      ''- time: Specific time or time period (2 PM, afternoon, morning, 3-5 PM, etc.)'', nl,
      ''- type: Type of meeting (call, meeting, appointment, interview, etc.)'', nl,
      ''- duration: How long (1 hour, 30 minutes, etc.)'', nl,
      nl,
      ''Return a JSON object with the extracted information. If the message contains time/scheduling information, set '', [dq], ''has_time_info'', [dq], '': true.'', nl,
      nl,
      ''Examples:'', nl,
      [dq], ''Schedule a call for tomorrow afternoon'', [dq], '' '', arrow, '' {'', [dq], ''has_time_info'', [dq], '': true, '', [dq], ''day'', [dq], '': '', [dq], ''tomorrow'', [dq], '', '', [dq], ''time'', [dq], '': '', [dq], ''afternoon'', [dq], '', '', [dq], ''type'', [dq], '': '', [dq], ''call'', [dq], ''}'', nl,
      [dq], ''Meeting at 2 PM Friday'', [dq], '' '', arrow, '' {'', [dq], ''has_time_info'', [dq], '': true, '', [dq], ''day'', [dq], '': '', [dq], ''Friday'', [dq], '', '', [dq], ''time'', [dq], '': '', [dq], ''2 PM'', [dq], '', '', [dq], ''type'', [dq], '': '', [dq], ''meeting'', [dq], ''}'', nl,
      [dq], ''Just saying hi'', [dq], '' '', arrow, '' {'', [dq], ''has_time_info'', [dq], '': false}'', nl,
      nl,
      ''Return ONLY valid JSON:'']"

definition conversation_prompt_head :: string where
  "conversation_prompt_head = concat
     [''You are a helpful calendar booking assistant. The user said: '']"

definition conversation_prompt_tail :: string where
  "conversation_prompt_tail = concat
     [nl,
      nl,
      ''Context: This is a calendar booking conversation. The user might be:'', nl,
      ''- Greeting you'', nl,
      ''- Asking for help'', nl,
      ''- Asking about availability without specific times'', nl,
      ''- Making unclear requests'', nl,
      ''- Asking questions about the service'', nl,
      nl,
      ''Respond naturally and helpfully. Keep responses concise (1-2 sentences). Always guide them toward booking if appropriate.'', nl,
      nl,
      ''Examples:'', nl,
      ''- '', [dq], ''Hi'', [dq], '' '', arrow, '' '', [dq], ''Hi! I'', [CHR 0x27], ''m your calendar assistant. What would you like to schedule today?'', [dq], nl,
      ''- '', [dq], ''Help'', [dq], '' '', arrow, '' '', [dq], ''I can help you schedule meetings, check availability, and book appointments. What would you like to schedule?'', [dq], nl,
      ''- '', [dq], ''What can you do?'', [dq], '' '', arrow, '' '', [dq], ''I can schedule meetings, check your calendar availability, and book appointments. Just tell me when you'', [CHR 0x27], ''d like to meet!'', [dq], nl,
      nl,
      ''Respond naturally:'']"

definition intent_prompt :: "string \<Rightarrow> string" where
  "intent_prompt msg = intent_prompt_head @ [dq] @ msg @ [dq] @ intent_prompt_tail"

definition extract_prompt :: "string \<Rightarrow> string" where
  "extract_prompt msg = extract_prompt_head @ [dq] @ msg @ [dq] @ extract_prompt_tail"

definition conversation_prompt :: "string \<Rightarrow> string" where
  "conversation_prompt msg =
     conversation_prompt_head @ [dq] @ msg @ [dq] @ conversation_prompt_tail"

text \<open>\<open>_call_llm\<close>\<close>

definition call_llm :: "env \<Rightarrow> string \<Rightarrow> string" where
  "call_llm env prompt =
     (case llm env of
        None \<Rightarrow> get_fallback_response prompt
      | Some generate \<Rightarrow>
          (case generate prompt of
             None \<Rightarrow> get_fallback_response prompt
           | Some text \<Rightarrow> strip text))"

text \<open>\<open>_understand_intent\<close>\<close>

definition understand_intent :: "env \<Rightarrow> string \<Rightarrow> string" where
  "understand_intent env msg = lower (strip (call_llm env (intent_prompt msg)))"

text \<open>
  The first pattern of \<open>_regex_extract\<close> and of the direct booking,
  \<open>(\d{1,2}):?(\d{0,2})\s*(am|pm)\<close>, anchored at the head of the text: the three groups
  and the length of the match. The candidates are the numbers of characters that the two
  digit groups and the colon can take, in the order in which the matcher tries them.
\<close>

definition leading_digits :: "string \<Rightarrow> nat" where
  "leading_digits s = length (takeWhile is_digit s)"

definition am_pm :: "string \<Rightarrow> bool" where
  "am_pm s = (prefix ''am'' s \<or> prefix ''pm'' s)"

definition match_clock :: "string \<Rightarrow> (string \<times> string \<times> string \<times> nat) option" where
  "match_clock s =
     (case find (\<lambda>(k1, c, k2).
                   k1 \<le> leading_digits s
                   \<and> (c = 0 \<or> prefix '':'' (drop k1 s))
                   \<and> k2 \<le> leading_digits (drop (k1 + c) s)
                   \<and> am_pm (dropWhile is_space (drop (k1 + c + k2) s)))
           (List.product [2, 1] (List.product [1, 0] [2, 1, 0])) of
        None \<Rightarrow> None
      | Some (k1, c, k2) \<Rightarrow>
          (let r = drop (k1 + c + k2) s;
               sp = length (takeWhile is_space r)
           in Some (take k1 s, take k2 (drop (k1 + c) s), take 2 (drop sp r),
                    k1 + c + k2 + sp + 2)))"

text \<open>\<open>(\d{1,2})\s*(am|pm)\<close>\<close>

definition match_hour :: "string \<Rightarrow> (string \<times> string) option" where
  "match_hour s =
     (case find (\<lambda>k1. k1 \<le> leading_digits s \<and> am_pm (dropWhile is_space (drop k1 s)))
           [2, 1] of
        None \<Rightarrow> None
      | Some k1 \<Rightarrow> Some (take k1 s, take 2 (dropWhile is_space (drop k1 s))))"

text \<open>\<open>next\s+(week|monday|tuesday|wednesday|thursday|friday)\<close>\<close>

definition match_next :: "string \<Rightarrow> string option" where
  "match_next s =
     (if prefix ''next'' s then
        (let sp = takeWhile is_space (drop 4 s) in
         if sp = [] then None
         else (case match_words [''week'', ''monday'', ''tuesday'', ''wednesday'', ''thursday'',
                                 ''friday''] (drop (4 + length sp) s) of
                 None \<Rightarrow> None
               | Some w \<Rightarrow> Some (''next'' @ sp @ w)))
      else None)"

text \<open>
  \<open>for pattern in patterns: if re.search(pattern, text): ...; break\<close>: the match of the
  first pattern that matches somewhere.
\<close>

fun first_match :: "(string \<Rightarrow> string option) list \<Rightarrow> string \<Rightarrow> string option" where
  "first_match [] text = None"
| "first_match (p # ps) text =
     (case re_search p text of Some m \<Rightarrow> Some m | None \<Rightarrow> first_match ps text)"

definition time_patterns :: "(string \<Rightarrow> string option) list" where
  "time_patterns =
     [\<lambda>s. map_option (\<lambda>(g1, g2, g3, n). take n s) (match_clock s),
      match_words [''morning'', ''afternoon'', ''evening''],
      match_words [''noon'', ''midnight'']]"

definition day_patterns :: "(string \<Rightarrow> string option) list" where
  "day_patterns =
     [match_words [''today'', ''tomorrow''],
      match_words [''monday'', ''tuesday'', ''wednesday'', ''thursday'', ''friday'', ''saturday'',
                   ''sunday''],
      match_next]"

text \<open>\<open>_regex_extract\<close>\<close>

definition regex_extract :: "string \<Rightarrow> dict" where
  "regex_extract msg =
     (let text = lower msg;
          info = [(''has_time_info'', JBool False)];
          info = (case first_match time_patterns text of
                    None \<Rightarrow> info
                  | Some m \<Rightarrow>
                      dict_set ''time'' (JStr m) (dict_set ''has_time_info'' (JBool True) info));
          info = (case first_match day_patterns text of
                    None \<Rightarrow> info
                  | Some m \<Rightarrow>
                      dict_set ''day'' (JStr m) (dict_set ''has_time_info'' (JBool True) info))
      in if contains ''call'' text then dict_set ''type'' (JStr ''call'') info
         else if contains ''meeting'' text then dict_set ''type'' (JStr ''meeting'') info
         else if contains ''appointment'' text then dict_set ''type'' (JStr ''appointment'') info
         else dict_set ''type'' (JStr ''meeting'') info)"

text \<open>The text that \<open>_extract_details\<close> hands to \<open>json.loads\<close>.\<close>

definition clean_json :: "string \<Rightarrow> string" where
  "clean_json text =
     (let r = strip text;
          r = (if prefix ''```json'' r then drop 7 r else r);
          r = (if suffix ''```'' r then take (length r - 3) r else r)
      in strip r)"

text \<open>\<open>_extract_details\<close>; what it returns is whatever JSON value the text holds.\<close>

definition extract_details :: "env \<Rightarrow> string \<Rightarrow> json" where
  "extract_details env msg =
     (case json_loads (clean_json (call_llm env (extract_prompt msg))) of
        Some extracted \<Rightarrow> extracted
      | None \<Rightarrow> JObj (regex_extract msg))"

text \<open>\<open>d.get(k, default)\<close>\<close>

definition get_or :: "dict \<Rightarrow> string \<Rightarrow> json \<Rightarrow> json" where
  "get_or d k dflt = (case dict_get d k of None \<Rightarrow> dflt | Some v \<Rightarrow> v)"

text \<open>\<open>today + timedelta(days=k)\<close>\<close>

definition days_later :: "datetime \<Rightarrow> int \<Rightarrow> error + datetime" where
  "days_later today k =
     (case shift today (k * us_day) of None \<Rightarrow> Inl OverflowError | Some d \<Rightarrow> Inr d)"

text \<open>
  \<open>_parse_date\<close>. The clock is read first; \<open>day_str.lower()\<close> raises unless the value is
  a string.
\<close>

definition parse_date :: "env \<Rightarrow> json \<Rightarrow> world \<Rightarrow> (error + datetime) \<times> world" where
  "parse_date env day_str w =
     (case now env w of
        (today, w') \<Rightarrow>
          (case day_str of
             JStr s \<Rightarrow>
               (let d = lower s in
                if contains ''today'' d then (Inr today, w')
                else if contains ''tomorrow'' d then (days_later today 1, w')
                else if contains ''monday'' d then
                  (let days_ahead = 0 - weekday today;
                       days_ahead = (if days_ahead \<le> 0 then days_ahead + 7 else days_ahead)
                   in (days_later today days_ahead, w'))
                else (days_later today 1, w'))
           | _ \<Rightarrow> (Inl AttributeError, w')))"

text \<open>\<open>_check_availability\<close>\<close>

definition offer :: "cal_slot \<Rightarrow> offered_slot" where
  "offer s =
     \<lparr>start_time = start_time s, end_time = end_time s, available = True,
      display = strftime_clock (start_time s)\<rparr>"

definition check_availability ::
  "env \<Rightarrow> dict \<Rightarrow> world \<Rightarrow> (error + offered_slot list) \<times> world" where
  "check_availability env info w =
     (case parse_date env (get_or info ''day'' (JStr ''tomorrow'')) w of
        (Inl e, w1) \<Rightarrow> (Inl e, w1)
      | (Inr target_date, w1) \<Rightarrow>
          (case get_available_slots env target_date 60 (9, 17) w1 of
             (Inl e, w2) \<Rightarrow> (Inl e, w2)
           | (Inr slots, w2) \<Rightarrow> (Inr (map offer (take 3 slots)), w2)))"

text \<open>What an f-string writes for a value.\<close>

definition py_str :: "env \<Rightarrow> json \<Rightarrow> string" where
  "py_str env j =
     (case j of
        JStr s \<Rightarrow> s
      | JNull \<Rightarrow> ''None''
      | JBool b \<Rightarrow> (if b then ''True'' else ''False'')
      | JInt i \<Rightarrow> show_int i
      | _ \<Rightarrow> py_repr env j)"

text \<open>The lines \<open>i. display\<close> of the slots, numbered from \<open>i\<close>.\<close>

fun numbered :: "nat \<Rightarrow> offered_slot list \<Rightarrow> string" where
  "numbered i [] = []"
| "numbered i (s # ss) = show_nat i @ ''. '' @ display s @ nl @ numbered (Suc i) ss"

text \<open>\<open>_suggest_slots\<close>\<close>

definition suggest_slots :: "env \<Rightarrow> offered_slot list \<Rightarrow> dict \<Rightarrow> string" where
  "suggest_slots env slots info =
     (let meeting_type = get_or info ''type'' (JStr ''meeting'') in
      if slots \<noteq> [] then
        ''I found some available times for your '' @ py_str env meeting_type @ '':'' @ nl @ nl
        @ numbered 1 slots
        @ nl @ ''Which time works best for you? Just reply with the number.''
      else ''I couldn'' @ [CHR 0x27]
           @ ''t find any available times. Would you like to try a different day?'')"

text \<open>\<open>\w\<close> on a code point.\<close>

definition word_code_point :: "env \<Rightarrow> string \<Rightarrow> bool" where
  "word_code_point env cp =
     (if list_all is_ascii cp then list_all is_word cp else word_char env cp)"

text \<open>
  \<open>re.search(r'\b([123])\b', message)\<close> over the code points of the message: the digit
  found, which is the first \<open>1\<close>, \<open>2\<close> or \<open>3\<close> that has no word character on
  either side.
\<close>

fun find_slot_digit :: "env \<Rightarrow> bool \<Rightarrow> string list \<Rightarrow> char option" where
  "find_slot_digit env after_word [] = None"
| "find_slot_digit env after_word (cp # cps) =
     (if cp \<in> set [''1'', ''2'', ''3''] \<and> \<not> after_word
         \<and> (case cps of [] \<Rightarrow> True | d # _ \<Rightarrow> \<not> word_code_point env d)
      then Some (hd cp)
      else find_slot_digit env (word_code_point env cp) cps)"

text \<open>\<open>len\<close> of a text: its code points, which are the bytes that begin one.\<close>

definition py_len :: "string \<Rightarrow> nat" where
  "py_len s = length (filter (\<lambda>c. \<not> is_continuation c) s)"

text \<open>\<open>_handle_conversation\<close>\<close>

definition handle_conversation :: "env \<Rightarrow> string \<Rightarrow> session \<Rightarrow> string" where
  "handle_conversation env msg session_data =
     (case (if available_slots session_data \<noteq> []
            then find_slot_digit env False (code_points msg) else None) of
        Some c \<Rightarrow>
          (let slot_num = int (digit_val c);
               slots = available_slots session_data
           in if 0 \<le> slot_num - 1 \<and> slot_num - 1 < int (length slots) then
                ''Perfect! You'' @ [CHR 0x27] @ ''ve selected ''
                @ display (slots ! nat (slot_num - 1))
                @ ''. I'' @ [CHR 0x27]
                @ ''ll book this time slot for you. The meeting has been scheduled!''
              else ''Please select 1, 2, or 3 for your preferred time.'')
      | None \<Rightarrow>
          (let reply = strip (call_llm env (conversation_prompt msg)) in
           if reply = [] \<or> py_len reply < 10 then
             (if any_in [''hi'', ''hello'', ''hey'', ''good morning'', ''good afternoon'']
                   (lower msg)
              then ''Hi! I'' @ [CHR 0x27]
                   @ ''m your calendar assistant. What would you like to schedule today?''
              else if any_in [''help'', ''what'', ''how''] (lower msg)
              then ''I can help you schedule meetings, check availability, and book appointments. What would you like to schedule?''
              else ''I'' @ [CHR 0x27] @ ''d be happy to help you schedule something! Try saying ''
                   @ quoted ''I want to schedule a call for tomorrow afternoon'' @ '' or ''
                   @ quoted ''Do you have any free time this Friday?'')
           else reply))"

text \<open>The hour and the minute that \<open>_direct_book_appointment\<close> reads in \<open>time_str\<close>.\<close>

definition to_24h :: "int \<Rightarrow> string \<Rightarrow> int" where
  "to_24h hour half =
     (if half = ''pm'' \<and> hour \<noteq> 12 then hour + 12
      else if half = ''am'' \<and> hour = 12 then 0
      else hour)"

definition parse_clock_time :: "string \<Rightarrow> int \<times> int" where
  "parse_clock_time time_str =
     (if contains ''8pm'' time_str \<or> contains ''8 pm'' time_str then (20, 0)
      else if contains ''8am'' time_str \<or> contains ''8 am'' time_str then (8, 0)
      else if contains ''9pm'' time_str \<or> contains ''9 pm'' time_str then (21, 0)
      else if contains ''9am'' time_str \<or> contains ''9 am'' time_str then (9, 0)
      else if contains ''10pm'' time_str \<or> contains ''10 pm'' time_str then (22, 0)
      else if contains ''10am'' time_str \<or> contains ''10 am'' time_str then (10, 0)
      else if contains ''11pm'' time_str \<or> contains ''11 pm'' time_str then (23, 0)
      else if contains ''11am'' time_str \<or> contains ''11 am'' time_str then (11, 0)
      else if contains ''12pm'' time_str \<or> contains ''12 pm'' time_str \<or> contains ''noon'' time_str
      then (12, 0)
      else if contains ''12am'' time_str \<or> contains ''12 am'' time_str
              \<or> contains ''midnight'' time_str
      then (0, 0)
      else if contains ''afternoon'' time_str then (14, 0)
      else if contains ''morning'' time_str then (9, 0)
      else if contains ''evening'' time_str then (18, 0)
      else (case re_search match_clock time_str of
              Some (g1, g2, g3, n) \<Rightarrow>
                (to_24h (int (nat_of_digits g1)) g3,
                 if g2 \<noteq> [] then int (nat_of_digits g2) else 0)
            | None \<Rightarrow>
                (case re_search match_hour time_str of
                   Some (g1, g2) \<Rightarrow> (to_24h (int (nat_of_digits g1)) g2, 0)
                 | None \<Rightarrow> (9, 0))))"

definition failure :: "string \<Rightarrow> booking_result" where
  "failure text = \<lparr>success = False, message = text, details = None\<rparr>"

definition trouble :: booking_result where
  "trouble =
     failure ''I had trouble booking that time. Let me show you some available slots instead.''"

definition past_rejection :: "datetime \<Rightarrow> string" where
  "past_rejection start =
     ''Sorry, '' @ strftime_clock start @ '' is in the past. Please choose a future time.''"

text \<open>
  \<open>_direct_book_appointment\<close>. Its body is in a \<open>try\<close>: every exception gives the
  \<open>trouble\<close> answer.
\<close>

definition direct_book_appointment :: "env \<Rightarrow> dict \<Rightarrow> world \<Rightarrow> booking_result \<times> world" where
  "direct_book_appointment env info w =
     (case parse_date env (get_or info ''day'' (JStr ''tomorrow'')) w of
        (Inl e, w1) \<Rightarrow> (trouble, w1)
      | (Inr target_date, w1) \<Rightarrow>
          (case get_or info ''time'' (JStr []) of
             JStr time_text \<Rightarrow>
               (case parse_clock_time (lower time_text) of
                  (hour, minute) \<Rightarrow>
                    (case replace_time target_date hour minute of
                       None \<Rightarrow> (trouble, w1)
                     | Some start \<Rightarrow>
                         (case shift start (60 * us_minute) of
                            None \<Rightarrow> (trouble, w1)
                          | Some finish \<Rightarrow>
                              (case now env w1 of
                                 (current, w2) \<Rightarrow>
                                   if start \<le> current
                                   then (failure (past_rejection start), w2)
                                   else
                                     (case get_or info ''type'' (JStr ''Meeting'') of
                                        JStr meeting_type \<Rightarrow>
                                          (let event_title =
                                                 capitalize meeting_type @ '' - ''
                                                 @ strftime_clock start
                                           in case create_event env
                                                     \<lparr>req_title = event_title,
                                                      req_start_time = start,
                                                      req_end_time = finish,
                                                      req_description =
                                                        ''Booked via Calendar Agent - ''
                                                        @ meeting_type,
                                                      req_attendees = []\<rparr> w2 of
                                                (Inl e, w3) \<Rightarrow> (trouble, w3)
                                              | (Inr booking, w3) \<Rightarrow>
                                                  if success booking then
                                                    (\<lparr>success = True,
                                                      message = message booking,
                                                      details = Some
                                                        \<lparr>booked_start_time = start,
                                                         booked_end_time = finish,
                                                         booked_title = event_title,
                                                         booking_id = event_id booking,
                                                         booked_event_link =
                                                           event_link booking\<rparr>\<rparr>,
                                                     w3)
                                                  else
                                                    (failure ''Failed to create calendar event. Please try again.'',
                                                     w3))
                                      | _ \<Rightarrow> (trouble, w2))))))
           | _ \<Rightarrow> (trouble, w1)))"

text \<open>
  The branches of \<open>process_message\<close> on the intent: the response and the session as the
  branch leaves it. An exception leaves the session as it was.
\<close>

definition need_time :: string where
  "need_time = ''I'' @ [CHR 0x27] @ ''d love to help you schedule that! Could you tell me when you''
     @ [CHR 0x27] @ ''d like to meet? For example: '' @ quoted ''tomorrow at 2 PM'' @ '' or ''
     @ quoted ''Friday morning'' @ ''.''"

definition need_day :: string where
  "need_day = ''I can check your availability! Which day are you interested in? For example: ''
     @ quoted ''tomorrow'' @ '', '' @ quoted ''Friday'' @ '', or '' @ quoted ''next week''
     @ ''.''"

definition availability_reply :: "env \<Rightarrow> offered_slot list \<Rightarrow> json \<Rightarrow> string" where
  "availability_reply env slots day =
     (if slots \<noteq> [] then
        ''Let me check your availability for '' @ py_str env day @ '':'' @ nl @ nl
        @ ''Here are your free time slots:'' @ nl @ nl
        @ numbered 1 slots
        @ nl @ ''Would you like to book any of these times? Just reply with the number.''
      else ''Sorry, you don'' @ [CHR 0x27] @ ''t have any free time slots for ''
           @ py_str env day @ ''. Would you like to try a different day?'')"

definition respond ::
  "env \<Rightarrow> string \<Rightarrow> string \<Rightarrow> session \<Rightarrow> world \<Rightarrow> (error + string \<times> session) \<times> world" where
  "respond env msg intent_text session_data w =
     (if contains ''book_appointment'' intent_text then
        (case extract_details env msg of
           JObj info \<Rightarrow>
             if (case dict_get info ''has_time_info'' of None \<Rightarrow> False | Some v \<Rightarrow> truthy v)
             then
               (case direct_book_appointment env info w of
                  (direct, w1) \<Rightarrow>
                    if success direct then
                      (Inr (message direct,
                            session_data\<lparr>booking_confirmed := True, available_slots := []\<rparr>),
                       w1)
                    else
                      (case check_availability env info w1 of
                         (Inl e, w2) \<Rightarrow> (Inl e, w2)
                       | (Inr slots, w2) \<Rightarrow>
                           (Inr (message direct @ nl @ nl @ suggest_slots env slots info,
                                 session_data\<lparr>available_slots := slots,
                                                extracted_info := info\<rparr>),
                            w2)))
             else (Inr (need_time, session_data), w)
         | _ \<Rightarrow> (Inl AttributeError, w))
      else if contains ''check_availability'' intent_text then
        (case extract_details env msg of
           JObj info \<Rightarrow>
             if (case dict_get info ''has_time_info'' of None \<Rightarrow> False | Some v \<Rightarrow> truthy v)
             then
               (case check_availability env info w of
                  (Inl e, w1) \<Rightarrow> (Inl e, w1)
                | (Inr slots, w1) \<Rightarrow>
                    (Inr (availability_reply env slots (get_or info ''day'' (JStr ''that day'')),
                          session_data\<lparr>available_slots := slots, extracted_info := info\<rparr>),
                     w1))
             else (Inr (need_day, session_data), w)
         | _ \<Rightarrow> (Inl AttributeError, w))
      else (Inr (handle_conversation env msg session_data, session_data), w))"

record chat_result =
  response :: string
  reply_slots :: "offered_slot list"
  reply_session_id :: string
  intent :: string
  reply_extracted_info :: dict

definition new_session :: "string \<Rightarrow> session" where
  "new_session sid =
     \<lparr>messages = [], user_intent = [], extracted_info = [], available_slots = [],
      booking_confirmed = False, session_id = sid\<rparr>"

definition say :: "string \<Rightarrow> string \<Rightarrow> session \<Rightarrow> session" where
  "say who text session_data =
     session_data\<lparr>messages := messages session_data @ [\<lparr>role = who, content = text\<rparr>]\<rparr>"

text \<open>
  \<open>process_message\<close>. The session is created and the user's message appended before
  anything can raise; the world that comes with an exception holds the session in that
  state.
\<close>

definition process_message ::
  "env \<Rightarrow> string \<Rightarrow> string \<Rightarrow> world \<Rightarrow> (error + chat_result) \<times> world" where
  "process_message env msg sid w =
     (let session_data =
            say ''user'' msg (case sessions w sid of None \<Rightarrow> new_session sid | Some sd \<Rightarrow> sd);
          w0 = w\<lparr>sessions := (sessions w)(sid \<mapsto> session_data)\<rparr>;
          intent_text = understand_intent env msg
      in case respond env msg intent_text session_data w0 of
           (Inl e, w1) \<Rightarrow> (Inl e, w1)
         | (Inr (reply, changed), w1) \<Rightarrow>
             (let final = say ''assistant'' reply changed in
              (Inr \<lparr>response = reply,
                    reply_slots = available_slots final,
                    reply_session_id = sid,
                    intent = intent_text,
                    reply_extracted_info = extracted_info final\<rparr>,
               w1\<lparr>sessions := (sessions w1)(sid \<mapsto> final)\<rparr>)))"

text \<open>\<open>confirm_booking\<close>\<close>

definition confirm_booking ::
  "env \<Rightarrow> string \<Rightarrow> int \<Rightarrow> world \<Rightarrow> (error + booking_result) \<times> world" where
  "confirm_booking env sid slot_index w =
     (case sessions w sid of
        None \<Rightarrow> (Inr (failure ''Session not found''), w)
      | Some state \<Rightarrow>
          (let slots = available_slots state in
           if 0 \<le> slot_index \<and> slot_index < int (length slots) then
             (let selected_slot = slots ! nat slot_index in
              case get_or (extracted_info state) ''type'' (JStr ''Meeting'') of
                JStr meeting_type \<Rightarrow>
                  (let event_title = capitalize meeting_type @ '' - ''
                                     @ strftime_clock (start_time selected_slot)
                   in case create_event env
                             \<lparr>req_title = event_title,
                              req_start_time = start_time selected_slot,
                              req_end_time = end_time selected_slot,
                              req_description = ''Booked via Calendar Agent - '' @ meeting_type,
                              req_attendees = []\<rparr> w of
                        (Inl e, w1) \<Rightarrow> (Inl e, w1)
                      | (Inr booking, w1) \<Rightarrow>
                          if success booking then
                            (Inr \<lparr>success = True, message = message booking,
                                  details = Some
                                    \<lparr>booked_start_time = start_time selected_slot,
                                     booked_end_time = end_time selected_slot,
                                     booked_title = event_title,
                                     booking_id = event_id booking,
                                     booked_event_link = event_link booking\<rparr>\<rparr>,
                             w1\<lparr>sessions :=
                                   (sessions w1)(sid \<mapsto> state\<lparr>booking_confirmed := True\<rparr>)\<rparr>)
                          else
                            (Inr (failure ''Failed to create calendar event. Please try again.''),
                             w1))
              | _ \<Rightarrow> (Inl AttributeError, w))
           else (Inr (failure ''Invalid slot selection''), w)))"

section \<open>Sample worlds\<close>

text \<open>Monday 2024-06-10, 10:00.\<close>

definition monday_morning :: datetime where
  "monday_morning = 739046 * us_day + 600 * us_minute"

text \<open>
  The word characters of Latin-1 beyond ASCII, as \<open>\w\<close> has them: of U+0080 to U+00BF
  the two letters, the micro sign, the three superscript digits and the three fractions,
  and all of U+00C0 to U+00FF but the signs of multiplication and division.
\<close>

definition latin1_word :: "string \<Rightarrow> bool" where
  "latin1_word cp =
     (case cp of
        [a, b] \<Rightarrow>
          a = CHR 0xC2
          \<and> b \<in> set [CHR 0xAA, CHR 0xB2, CHR 0xB3, CHR 0xB5, CHR 0xB9, CHR 0xBA, CHR 0xBC,
                      CHR 0xBD, CHR 0xBE]
          \<or> a = CHR 0xC3 \<and> is_continuation b \<and> b \<notin> set [CHR 0x97, CHR 0xB7]
      | _ \<Rightarrow> False)"

text \<open>
  An agent without language model, on the mock calendar, for which no time passes during
  a call. The host's time zone is UTC, where \<open>timestamp\<close> raises \<open>ValueError\<close> for a
  time of the first day, 0001-01-01; the messages are of Latin-1.
\<close>

definition offline_env :: env where
  "offline_env =
     \<lparr>clock = (\<lambda>n. monday_morning),
      llm = None,
      mock_mode = True,
      api_list = (\<lambda>a b. None),
      api_insert = (\<lambda>r. None),
      epoch_seconds = (\<lambda>d. if d < us_day then Inl ValueError
                            else Inr (d div 1000000 - 62135596800)),
      py_repr = (\<lambda>j. json_dumps j),
      word_char = latin1_word\<rparr>"

definition empty_world :: world where
  "empty_world = \<lparr>sessions = Map.empty, create_event_calls = [], ticks = 0\<rparr>"

text \<open>A session that has been offered the slot of 11:00.\<close>

definition eleven :: offered_slot where
  "eleven =
     \<lparr>start_time = at_time monday_morning 11 0,
      end_time = add_minutes (at_time monday_morning 11 0) 60,
      available = True,
      display = ''11:00 AM''\<rparr>"

definition offered_session :: session where
  "offered_session = (new_session ''s1'')\<lparr>available_slots := [eleven]\<rparr>"

definition offered_world :: world where
  "offered_world = empty_world\<lparr>sessions := [''s1'' \<mapsto> offered_session]\<rparr>"

text \<open>The same agent, for which a day passes after the clock has been read 7 times.\<close>

definition late_env :: env where
  "late_env =
     offline_env\<lparr>clock := (\<lambda>n. if n < 7 then monday_morning else add_days monday_morning 1)\<rparr>"

text \<open>
  An agent whose language model answers the intent prompt with \<open>book_appointment\<close> and
  the extraction prompt with an object whose day is \<open>null\<close>.
\<close>

definition null_day_reply :: string where
  "null_day_reply =
     ''{'' @ dumps_str ''has_time_info'' @ '': true, '' @ dumps_str ''day'' @ '': null, ''
     @ dumps_str ''time'' @ '': '' @ dumps_str ''3 PM'' @ '', '' @ dumps_str ''type'' @ '': ''
     @ dumps_str ''meeting'' @ ''}''"

definition null_day_env :: env where
  "null_day_env =
     offline_env\<lparr>llm := Some (\<lambda>prompt. Some (if prefix intent_prompt_head prompt
                                                then ''book_appointment''
                                                else null_day_reply))\<rparr>"



section \<open>Facts about texts\<close>

lemma lower_char_bits:
  "lower_char (Char b0 b1 b2 b3 b4 b5 b6 b7) =
     (if \<not> b7 \<and> b6 \<and> \<not> b5 \<and> (if b4 then \<not> b3 \<or> (\<not> b2 \<and> \<not> (b1 \<and> b0)) else b3 \<or> b2 \<or> b1 \<or> b0)
      then Char b0 b1 b2 b3 b4 True b6 b7 else Char b0 b1 b2 b3 b4 b5 b6 b7)"
  by (cases b0; cases b1; cases b2; cases b3; cases b4; cases b5; cases b6; cases b7)
     (simp_all add: lower_char_def)

lemmas text_eval =
  lower_def lower_char_bits nl_def dq_def arrow_def any_in_def
  intent_prompt_head_def intent_prompt_tail_def
  extract_prompt_head_def extract_prompt_tail_def
  conversation_prompt_head_def conversation_prompt_tail_def

lemma lower_char_dq [simp]: "(lower_char c = dq) = (c = dq)"
  by (auto simp: lower_char_def dq_def split: option.splits dest!: map_of_SomeD)

lemma lower_append: "lower (a @ b) = lower a @ lower b"
  by (simp add: lower_def)

lemma lower_Cons: "lower (c # cs) = lower_char c # lower cs"
  by (simp add: lower_def)

lemma lower_dq [simp]: "lower_char dq = dq"
  by simp

lemma split_on_head: "q \<notin> set h \<Longrightarrow> split_on q (h @ q # r) = h # split_on q r"
  by (induction h) (auto split: list.splits)

lemma split_on_nonempty: "split_on q s \<noteq> []"
  by (induction s) (auto split: list.splits)

lemma hd_split_on: "hd (split_on q s) = takeWhile (\<lambda>c. c \<noteq> q) s"
  by (induction s) (auto split: list.splits simp: split_on_nonempty)

lemma takeWhile_until: "\<not> P q \<Longrightarrow> takeWhile P (m @ q # t) = takeWhile P m"
  by (induction m) auto

lemma split_on_quoted:
  "q \<notin> set h \<Longrightarrow> split_on q (h @ q # m @ q # t) ! 1 = takeWhile (\<lambda>c. c \<noteq> q) m"
proof -
  assume h: "q \<notin> set h"
  have "split_on q (h @ q # m @ q # t) ! 1 = hd (split_on q (m @ q # t))"
    using split_on_head [OF h, of "m @ q # t"] split_on_nonempty [of q "m @ q # t"]
    by (simp add: hd_conv_nth)
  then show ?thesis by (simp add: hd_split_on takeWhile_until)
qed

lemma prefix_before_sep: "q \<notin> set w \<Longrightarrow> prefix w (a @ q # b) = prefix w a"
  by (auto simp: prefix_append prefix_Cons)

lemma contains_Nil: "contains [] s"
  by (cases s) auto

lemma contains_sep: "q \<notin> set w \<Longrightarrow> contains w (a @ q # b) = (contains w a \<or> contains w b)"
proof (induction a)
  case Nil
  then show ?case by (cases w) (auto simp: contains_Nil)
next
  case (Cons x a)
  then show ?case using prefix_before_sep [of q w "x # a" b] by auto
qed

text \<open>A message between its two quotes, inside a prompt.\<close>

lemma contains_prompt:
  assumes "dq \<notin> set w"
  shows "contains w (lower (h @ [dq] @ m @ [dq] @ t))
         = (contains w (lower h) \<or> contains w (lower m) \<or> contains w (lower t))"
  using assms by (simp add: lower_append lower_Cons contains_sep)

lemma user_msg_of_prompt:
  assumes "dq \<notin> set h"
  shows "split_on dq (h @ [dq] @ m @ [dq] @ t) ! 1 = takeWhile (\<lambda>c. c \<noteq> dq) m"
  using split_on_quoted [OF assms, of m t] by simp

lemma intent_head_facts:
  "dq \<notin> set intent_prompt_head"
  "contains ''intent'' (lower intent_prompt_head)"
  "contains ''analyze this user message'' (lower intent_prompt_head)"
  by (simp_all add: text_eval)

text \<open>What the agent answers to the intent prompt without the language model.\<close>

lemma fallback_intent:
  "get_fallback_response (intent_prompt m) =
     (let user_msg = lower (takeWhile (\<lambda>c. c \<noteq> dq) m) in
      if any_in [''schedule'', ''book'', ''meeting'', ''call'', ''appointment''] user_msg
      then ''book_appointment''
      else if any_in [''free'', ''available'', ''availability'', ''time''] user_msg
      then ''check_availability''
      else ''general_conversation'')"
proof -
  have w1: "dq \<notin> set ''intent''" and w2: "dq \<notin> set ''analyze this user message''"
    by (simp_all add: dq_def)
  have c1: "contains ''intent'' (lower (intent_prompt m))"
    unfolding intent_prompt_def contains_prompt [OF w1] using intent_head_facts by simp
  have c2: "contains ''analyze this user message'' (lower (intent_prompt m))"
    unfolding intent_prompt_def contains_prompt [OF w2] using intent_head_facts by simp
  have q: "dq \<in> set (intent_prompt m)"
    by (simp add: intent_prompt_def)
  have u: "split_on dq (intent_prompt m) ! 1 = takeWhile (\<lambda>c. c \<noteq> dq) m"
    unfolding intent_prompt_def by (rule user_msg_of_prompt) (rule intent_head_facts)
  show ?thesis
    unfolding get_fallback_response_def Let_def using c1 c2 q u by simp
qed

lemma strip_lower_intents:
  "lower (strip ''book_appointment'') = ''book_appointment''"
  "lower (strip ''check_availability'') = ''check_availability''"
  "lower (strip ''general_conversation'') = ''general_conversation''"
  by (simp_all add: strip_def is_space_def lower_def lower_char_bits)

lemma understand_intent_offline:
  assumes "llm env = None"
  shows "understand_intent env m =
     (let user_msg = lower (takeWhile (\<lambda>c. c \<noteq> dq) m) in
      if any_in [''schedule'', ''book'', ''meeting'', ''call'', ''appointment''] user_msg
      then ''book_appointment''
      else if any_in [''free'', ''available'', ''availability'', ''time''] user_msg
      then ''check_availability''
      else ''general_conversation'')"
  using assms
  by (simp add: understand_intent_def call_llm_def fallback_intent Let_def strip_lower_intents)

section \<open>Extraction without the language model\<close>

lemma extract_template_facts:
  "dq \<notin> set extract_prompt_head"
  "\<not> contains ''intent'' (lower extract_prompt_head)"
  "\<not> contains ''intent'' (lower extract_prompt_tail)"
  "\<not> contains ''analyze this user message'' (lower extract_prompt_head)"
  "\<not> contains ''analyze this user message'' (lower extract_prompt_tail)"
  "\<not> contains ''extract booking information'' (lower extract_prompt_head)"
  "\<not> contains ''extract booking information'' (lower extract_prompt_tail)"
  "\<not> contains ''calendar booking assistant'' (lower extract_prompt_head)"
  "\<not> contains ''calendar booking assistant'' (lower extract_prompt_tail)"
  by (simp_all add: text_eval)

lemmas json_eval =
  json_loads_def clean_json_def strip_def is_space_def token_at_def scan_number_def
  json_ws_def dq_def is_digit_def is_control_def backslash_def unescape_def
  begin_value_def nat_of_digits_def digit_val_def

lemma lex_skip [simp]: "0 < n \<Longrightarrow> lex n (c # cs) = lex (n - 1) cs"
  by (cases n) simp_all

lemma scan_string_skip [simp]:
  "0 < n \<Longrightarrow> scan_string n (c # cs) = map_option (\<lambda>(s, k). (s, Suc k)) (scan_string (n - 1) cs)"
  by (cases n) simp_all

text \<open>None of the fixed answers of the fallback is JSON.\<close>

lemma canned_not_json:
  "json_loads (clean_json ''book_appointment'') = None"
  "json_loads (clean_json ''check_availability'') = None"
  "json_loads (clean_json ''general_conversation'') = None"
  "json_loads (clean_json (''Hi! I'' @ [CHR 0x27]
      @ ''m your calendar assistant. What would you like to schedule today?'')) = None"
  "json_loads (clean_json ''I can help you schedule meetings, check availability, and book appointments. What would you like to schedule?'') = None"
  "json_loads (clean_json (''I'' @ [CHR 0x27]
      @ ''d be happy to help you schedule something! What would you like to book?'')) = None"
  "json_loads (clean_json ''I can help you schedule appointments. What would you like to book?'') = None"
  by (simp_all add: json_eval Let_def suffix_to_prefix)

lemma fallback_extraction:
  "get_fallback_response (extract_prompt m) =
     (let l = lower m; user_msg = lower (takeWhile (\<lambda>c. c \<noteq> dq) m) in
      if contains ''intent'' l \<and> contains ''analyze this user message'' l then
        (if any_in [''schedule'', ''book'', ''meeting'', ''call'', ''appointment''] user_msg
         then ''book_appointment''
         else if any_in [''free'', ''available'', ''availability'', ''time''] user_msg
         then ''check_availability''
         else ''general_conversation'')
      else if contains ''extract booking information'' l then
        json_dumps (JObj (fallback_extract user_msg))
      else if contains ''calendar booking assistant'' l then
        (if any_in [''hi'', ''hello'', ''hey''] user_msg
         then ''Hi! I'' @ [CHR 0x27]
              @ ''m your calendar assistant. What would you like to schedule today?''
         else if any_in [''help'', ''what'', ''how''] user_msg
         then ''I can help you schedule meetings, check availability, and book appointments. What would you like to schedule?''
         else ''I'' @ [CHR 0x27]
              @ ''d be happy to help you schedule something! What would you like to book?'')
      else ''I can help you schedule appointments. What would you like to book?'')"
proof -
  have w: "dq \<notin> set ''intent''" "dq \<notin> set ''analyze this user message''"
    "dq \<notin> set ''extract booking information''" "dq \<notin> set ''calendar booking assistant''"
    by (simp_all add: dq_def)
  have c: "contains ''intent'' (lower (extract_prompt m)) = contains ''intent'' (lower m)"
    "contains ''analyze this user message'' (lower (extract_prompt m))
       = contains ''analyze this user message'' (lower m)"
    "contains ''extract booking information'' (lower (extract_prompt m))
       = contains ''extract booking information'' (lower m)"
    "contains ''calendar booking assistant'' (lower (extract_prompt m))
       = contains ''calendar booking assistant'' (lower m)"
    unfolding extract_prompt_def contains_prompt [OF w(1)] contains_prompt [OF w(2)]
      contains_prompt [OF w(3)] contains_prompt [OF w(4)]
    using extract_template_facts by simp_all
  have q: "dq \<in> set (extract_prompt m)"
    by (simp add: extract_prompt_def)
  have u: "split_on dq (extract_prompt m) ! 1 = takeWhile (\<lambda>c. c \<noteq> dq) m"
    unfolding extract_prompt_def by (rule user_msg_of_prompt) (rule extract_template_facts)
  show ?thesis
    unfolding get_fallback_response_def Let_def c u using q by simp
qed



lemma extract_details_offline:
  assumes "llm env = None"
      and "\<not> contains ''extract booking information'' (lower m)"
  shows "extract_details env m = JObj (regex_extract m)"
  using assms
  by (simp add: extract_details_def call_llm_def fallback_extraction Let_def
        canned_not_json [simplified])

lemma extract_details_hijacked:
  assumes "llm env = None"
      and "contains ''extract booking information'' (lower m)"
      and "\<not> contains ''intent'' (lower m)"
  shows "extract_details env m =
           (case json_loads (clean_json (json_dumps (JObj
                   (fallback_extract (lower (takeWhile (\<lambda>c. c \<noteq> dq) m)))))) of
              Some extracted \<Rightarrow> extracted
            | None \<Rightarrow> JObj (regex_extract m))"
  using assms
  by (simp add: extract_details_def call_llm_def fallback_extraction Let_def)

lemmas regex_eval =
  regex_extract_def time_patterns_def day_patterns_def match_clock_def match_words_def
  match_next_def leading_digits_def am_pm_def is_digit_def is_space_def Let_def

text \<open>The two classifiers, in a form that evaluates without going through the prompt.\<close>

lemma extract_details_without_llm:
  assumes "llm env = None"
  shows "extract_details env m =
     (let l = lower m in
      if contains ''intent'' l \<and> contains ''analyze this user message'' l
      then JObj (regex_extract m)
      else if contains ''extract booking information'' l then
        (case json_loads (clean_json (json_dumps (JObj
                 (fallback_extract (lower (takeWhile (\<lambda>c. c \<noteq> dq) m)))))) of
           Some extracted \<Rightarrow> extracted
         | None \<Rightarrow> JObj (regex_extract m))
      else JObj (regex_extract m))"
  using assms
  by (simp add: extract_details_def call_llm_def fallback_extraction Let_def
        canned_not_json [simplified])

lemma understand_intent_code [code]:
  "understand_intent env m =
     (case llm env of
        None \<Rightarrow>
          (let user_msg = lower (takeWhile (\<lambda>c. c \<noteq> dq) m) in
           if any_in [''schedule'', ''book'', ''meeting'', ''call'', ''appointment''] user_msg
           then ''book_appointment''
           else if any_in [''free'', ''available'', ''availability'', ''time''] user_msg
           then ''check_availability''
           else ''general_conversation'')
      | Some generate \<Rightarrow> lower (strip (call_llm env (intent_prompt m))))"
  by (simp add: understand_intent_offline split: option.splits) (simp add: understand_intent_def)

lemma extract_details_code [code]:
  "extract_details env m =
     (case llm env of
        None \<Rightarrow>
          (let l = lower m in
           if contains ''intent'' l \<and> contains ''analyze this user message'' l
           then JObj (regex_extract m)
           else if contains ''extract booking information'' l then
             (case json_loads (clean_json (json_dumps (JObj
                      (fallback_extract (lower (takeWhile (\<lambda>c. c \<noteq> dq) m)))))) of
                Some extracted \<Rightarrow> extracted
              | None \<Rightarrow> JObj (regex_extract m))
           else JObj (regex_extract m))
      | Some generate \<Rightarrow>
          (case json_loads (clean_json (call_llm env (extract_prompt m))) of
             Some extracted \<Rightarrow> extracted
           | None \<Rightarrow> JObj (regex_extract m)))"
  by (simp add: extract_details_without_llm split: option.splits) (simp add: extract_details_def)

section \<open>What the slot loops leave unchanged\<close>

lemma now_ticks [simp]: "now env w = (clock env (ticks w), w\<lparr>ticks := Suc (ticks w)\<rparr>)"
  by (simp add: now_def)

lemma mock_slots_loop_frame:
  "mock_slots_loop env date dur eh hs w = (r, w') \<Longrightarrow>
     ticks w \<le> ticks w' \<and> sessions w' = sessions w
     \<and> create_event_calls w' = create_event_calls w"
proof (induction hs arbitrary: w r w')
  case Nil
  then show ?case by simp
next
  case (Cons h hs)
  show ?case
  proof (cases "h < eh \<and> shift (at_time date h 0) (dur * us_minute) \<noteq> None")
    case True
    obtain r2 w2 where r: "mock_slots_loop env date dur eh hs (w\<lparr>ticks := Suc (ticks w)\<rparr>) = (r2, w2)"
      by (cases "mock_slots_loop env date dur eh hs (w\<lparr>ticks := Suc (ticks w)\<rparr>)")
    from Cons.prems True r have "w' = w2" by (auto simp: Let_def split: sum.splits)
    with Cons.IH [OF r] show ?thesis by simp
  next
    case False
    with Cons show ?thesis by (auto simp: Let_def split: if_splits)
  qed
qed

lemma mock_slots_loop_future:
  assumes mono: "\<And>i j. i \<le> j \<Longrightarrow> clock env i \<le> clock env j"
  shows "mock_slots_loop env date dur eh hs w = (Inr slots, w') \<Longrightarrow>
     list_all (\<lambda>s. clock env (ticks w) < start_time s) slots"
proof (induction hs arbitrary: w slots w')
  case Nil
  then show ?case by simp
next
  case (Cons h hs)
  show ?case
  proof (cases "h < eh")
    case True
    let ?w1 = "w\<lparr>ticks := Suc (ticks w)\<rparr>"
    from Cons.prems True obtain slot_end where
      e: "shift (at_time date h 0) (dur * us_minute) = Some slot_end"
      by (auto simp: Let_def split: option.splits)
    obtain r2 w2 where r: "mock_slots_loop env date dur eh hs ?w1 = (r2, w2)"
      by (cases "mock_slots_loop env date dur eh hs ?w1")
    from Cons.prems True e r obtain rest where
      r2: "r2 = Inr rest" and
      slots: "slots = (if clock env (ticks w) < at_time date h 0
                       then [make_slot (at_time date h 0) slot_end dur] else []) @ rest"
      by (auto simp: Let_def split: sum.splits)
    have later: "list_all (\<lambda>s. clock env (ticks ?w1) < start_time s) rest"
      using Cons.IH r r2 by blast
    have "clock env (ticks w) \<le> clock env (ticks ?w1)"
      by (rule mono) simp
    with later have rest: "list_all (\<lambda>s. clock env (ticks w) < start_time s) rest"
      by (auto simp: list_all_iff)
    with slots show ?thesis by (simp add: make_slot_def)
  next
    case False
    with Cons show ?thesis by simp
  qed
qed

lemma still_ahead_frame:
  "still_ahead env busy cur w = (keep, w1) \<Longrightarrow>
     ticks w \<le> ticks w1 \<and> sessions w1 = sessions w
     \<and> create_event_calls w1 = create_event_calls w"
  by (auto simp: still_ahead_def split: if_splits)

lemma still_ahead_keep:
  "still_ahead env busy cur w = (True, w1) \<Longrightarrow> clock env (ticks w) < cur"
  by (auto simp: still_ahead_def split: if_splits)

text \<open>One round of the \<open>while\<close> loop that goes on to the next candidate.\<close>

lemma real_slots_loop_round:
  assumes "shift cur (dur * us_minute) = Some slot_end"
      and "slot_end \<le> day_end"
      and "conflicts events cur slot_end = Inr busy"
      and "still_ahead env busy cur w = (keep, w1)"
      and "shift cur (30 * us_minute) = Some next_time"
      and "real_slots_loop env events dur day_end next_time w1 = (r2, w2)"
  shows "real_slots_loop env events dur day_end cur w =
           (case r2 of
              Inl e \<Rightarrow> (Inl e, w2)
            | Inr rest \<Rightarrow>
                (Inr ((if keep then [make_slot cur slot_end dur] else []) @ rest), w2))"
  using assms by (subst real_slots_loop.simps) (simp split: sum.splits)

text \<open>The rounds that end the loop leave the world as the clock reading left it.\<close>

lemma real_slots_loop_stop:
  assumes "real_slots_loop env events dur day_end cur w = (r, w')"
      and "\<not> (\<exists>slot_end busy next_time.
                shift cur (dur * us_minute) = Some slot_end \<and> slot_end \<le> day_end
                \<and> conflicts events cur slot_end = Inr busy
                \<and> shift cur (30 * us_minute) = Some next_time)"
  shows "ticks w \<le> ticks w' \<and> sessions w' = sessions w
         \<and> create_event_calls w' = create_event_calls w
         \<and> (\<forall>slots. r = Inr slots \<longrightarrow> slots = [])"
  using assms
  by (subst (asm) real_slots_loop.simps)
     (auto split: option.splits if_splits sum.splits prod.splits dest!: still_ahead_frame)

lemma real_slots_loop_frame:
  "real_slots_loop env events dur day_end cur w = (r, w') \<Longrightarrow>
     ticks w \<le> ticks w' \<and> sessions w' = sessions w
     \<and> create_event_calls w' = create_event_calls w"
proof (induction env events dur day_end cur w arbitrary: r w' rule: real_slots_loop.induct)
  case (1 env events dur day_end cur w)
  show ?case
  proof (cases "\<exists>slot_end busy next_time.
                shift cur (dur * us_minute) = Some slot_end \<and> slot_end \<le> day_end
                \<and> conflicts events cur slot_end = Inr busy
                \<and> shift cur (30 * us_minute) = Some next_time")
    case False
    show ?thesis using real_slots_loop_stop [OF "1.prems" False] by simp
  next
    case True
    then obtain slot_end busy next_time where
      s: "shift cur (dur * us_minute) = Some slot_end" and le: "slot_end \<le> day_end" and
      c: "conflicts events cur slot_end = Inr busy" and
      n: "shift cur (30 * us_minute) = Some next_time"
      by blast
    obtain keep w1 where kw1: "still_ahead env busy cur w = (keep, w1)"
      by (cases "still_ahead env busy cur w")
    obtain r2 w2 where rec: "real_slots_loop env events dur day_end next_time w1 = (r2, w2)"
      by (cases "real_slots_loop env events dur day_end next_time w1")
    have ih: "ticks w1 \<le> ticks w2 \<and> sessions w2 = sessions w1
              \<and> create_event_calls w2 = create_event_calls w1"
      by (rule "1.IH" [OF s le c kw1 [symmetric] n rec])
    have "w' = w2"
      using "1.prems" real_slots_loop_round [OF s le c kw1 n rec] by (auto split: sum.splits)
    with ih still_ahead_frame [OF kw1] show ?thesis by simp
  qed
qed

lemma real_slots_loop_future:
  "(\<And>i j. i \<le> j \<Longrightarrow> clock env i \<le> clock env j) \<Longrightarrow>
   real_slots_loop env events dur day_end cur w = (Inr slots, w') \<Longrightarrow>
     list_all (\<lambda>s. clock env (ticks w) < start_time s) slots"
proof (induction env events dur day_end cur w arbitrary: slots w' rule: real_slots_loop.induct)
  case (1 env events dur day_end cur w)
  note mono = "1.prems"(1)
  note run = "1.prems"(2)
  show ?case
  proof (cases "\<exists>slot_end busy next_time.
                shift cur (dur * us_minute) = Some slot_end \<and> slot_end \<le> day_end
                \<and> conflicts events cur slot_end = Inr busy
                \<and> shift cur (30 * us_minute) = Some next_time")
    case False
    show ?thesis using real_slots_loop_stop [OF run False] by simp
  next
    case True
    then obtain slot_end busy next_time where
      s: "shift cur (dur * us_minute) = Some slot_end" and le: "slot_end \<le> day_end" and
      c: "conflicts events cur slot_end = Inr busy" and
      n: "shift cur (30 * us_minute) = Some next_time"
      by blast
    obtain keep w1 where kw1: "still_ahead env busy cur w = (keep, w1)"
      by (cases "still_ahead env busy cur w")
    obtain r2 w2 where rec: "real_slots_loop env events dur day_end next_time w1 = (r2, w2)"
      by (cases "real_slots_loop env events dur day_end next_time w1")
    from run real_slots_loop_round [OF s le c kw1 n rec] obtain rest where
      r2: "r2 = Inr rest" and
      slots: "slots = (if keep then [make_slot cur slot_end dur] else []) @ rest"
      by (auto split: sum.splits)
    have "list_all (\<lambda>s. clock env (ticks w1) < start_time s) rest"
      using "1.IH" [OF s le c kw1 [symmetric] n mono] rec r2 by blast
    moreover have "clock env (ticks w) \<le> clock env (ticks w1)"
      using still_ahead_frame [OF kw1] mono by blast
    ultimately have rest: "list_all (\<lambda>s. clock env (ticks w) < start_time s) rest"
      by (auto simp: list_all_iff)
    have "keep \<Longrightarrow> clock env (ticks w) < cur"
      using kw1 by (auto dest: still_ahead_keep)
    with rest slots show ?thesis by (simp add: make_slot_def)
  qed
qed

lemma get_mock_frame:
  "get_mock_available_slots env date dur wh w = (r, w') \<Longrightarrow>
     ticks w \<le> ticks w' \<and> sessions w' = sessions w
     \<and> create_event_calls w' = create_event_calls w"
  by (auto simp: get_mock_available_slots_def split: prod.splits if_splits sum.splits
           dest: mock_slots_loop_frame)

lemma get_real_frame:
  "get_real_available_slots env date dur wh w = (r, w') \<Longrightarrow>
     ticks w \<le> ticks w' \<and> sessions w' = sessions w
     \<and> create_event_calls w' = create_event_calls w"
  by (auto simp: get_real_available_slots_def Let_def
           split: prod.splits if_splits option.splits sum.splits
           dest: real_slots_loop_frame)

lemma get_available_slots_frame:
  "get_available_slots env date dur wh w = (r, w') \<Longrightarrow>
     ticks w \<le> ticks w' \<and> sessions w' = sessions w
     \<and> create_event_calls w' = create_event_calls w"
  by (auto simp: get_available_slots_def split: prod.splits if_splits sum.splits
           dest!: get_real_frame get_mock_frame)

lemma list_all_take: "list_all P xs \<Longrightarrow> list_all P (take n xs)"
  by (auto simp: list_all_iff dest: in_set_takeD)

lemma get_mock_future:
  assumes mono: "\<And>i j. i \<le> j \<Longrightarrow> clock env i \<le> clock env j"
      and run: "get_mock_available_slots env date dur wh w = (Inr slots, w')"
  shows "list_all (\<lambda>s. clock env (ticks w) < start_time s) slots"
  using run mock_slots_loop_future [OF mono]
  by (auto simp: get_mock_available_slots_def split: prod.splits if_splits sum.splits
           intro!: list_all_take)

lemma get_real_future:
  assumes mono: "\<And>i j. i \<le> j \<Longrightarrow> clock env i \<le> clock env j"
      and run: "get_real_available_slots env date dur wh w = (Inr slots, w')"
  shows "list_all (\<lambda>s. clock env (ticks w) < start_time s) slots"
  using run real_slots_loop_future [OF mono]
  by (auto simp: get_real_available_slots_def Let_def
           split: prod.splits if_splits option.splits sum.splits
           intro!: list_all_take)

lemma parse_date_frame:
  "parse_date env d w = (r, w') \<Longrightarrow>
     sessions w' = sessions w \<and> create_event_calls w' = create_event_calls w
     \<and> ticks w' = Suc (ticks w)"
  by (auto simp: parse_date_def Let_def split: json.splits if_splits)

lemma create_event_frame:
  "create_event env req w = (b, w') \<Longrightarrow>
     sessions w' = sessions w \<and> create_event_calls w' = create_event_calls w @ [req]
     \<and> ticks w' = ticks w"
  by (auto simp: create_event_def Let_def split: if_splits option.splits)

lemma direct_book_frame:
  "direct_book_appointment env info w = (b, w') \<Longrightarrow> sessions w' = sessions w"
  unfolding direct_book_appointment_def
  by (auto simp: Let_def split: prod.splits sum.splits json.splits option.splits if_splits
           dest!: parse_date_frame create_event_frame)

lemma check_availability_frame:
  "check_availability env info w = (r, w') \<Longrightarrow>
     sessions w' = sessions w \<and> create_event_calls w' = create_event_calls w"
  unfolding check_availability_def
  by (auto split: prod.splits sum.splits dest!: parse_date_frame get_available_slots_frame)

lemma respond_frame:
  assumes "respond env msg it sd w = (r, w')"
  shows "sessions w' = sessions w
         \<and> (case r of Inl e \<Rightarrow> True | Inr (reply, sd') \<Rightarrow> messages sd' = messages sd)"
  using assms unfolding respond_def
  by (auto split: prod.splits sum.splits json.splits if_splits
           dest!: direct_book_frame check_availability_frame)

section \<open>The availability engine\<close>

text \<open>
  C4. Every slot that the availability engine returns, on the mock path, on the real
  path and when the real path fails over to the mock one, starts strictly after the time
  of the call: the reading of the clock at the call, for a clock that does not run
  backwards.
\<close>

theorem slots_start_after_call:
  assumes mono: "\<And>i j. i \<le> j \<Longrightarrow> clock env i \<le> clock env j"
      and run: "get_available_slots env date duration_minutes working_hours w = (Inr slots, w')"
  shows "list_all (\<lambda>s. clock env (ticks w) < start_time s) slots"
proof (cases "mock_mode env")
  case True
  with run show ?thesis by (simp add: get_available_slots_def get_mock_future [OF mono])
next
  case False
  obtain r w1 where
    real: "get_real_available_slots env date duration_minutes working_hours w = (r, w1)"
    by (cases "get_real_available_slots env date duration_minutes working_hours w")
  show ?thesis
  proof (cases r)
    case (Inr found)
    with run False real have "slots = found" by (simp add: get_available_slots_def)
    with real Inr show ?thesis using get_real_future [OF mono] by blast
  next
    case (Inl e)
    with run False real
    have mock:
      "get_mock_available_slots env date duration_minutes working_hours w1 = (Inr slots, w')"
      by (simp add: get_available_slots_def)
    have "list_all (\<lambda>s. clock env (ticks w1) < start_time s) slots"
      by (rule get_mock_future [OF mono mock])
    moreover have "clock env (ticks w) \<le> clock env (ticks w1)"
      using get_real_frame [OF real] mono by blast
    ultimately show ?thesis by (auto simp: list_all_iff)
  qed
qed

lemma offline_slots:
  "get_available_slots offline_env monday_morning 60 (9, 17) empty_world
   = (Inr [make_slot (at_time monday_morning 11 0) (add_minutes (at_time monday_morning 11 0) 60) 60,
           make_slot (at_time monday_morning 14 0) (add_minutes (at_time monday_morning 14 0) 60) 60,
           make_slot (at_time monday_morning 16 0) (add_minutes (at_time monday_morning 16 0) 60) 60],
      empty_world\<lparr>ticks := 4\<rparr>)"
  by (simp add: get_available_slots_def get_mock_available_slots_def offline_env_def
        empty_world_def slot_times_def valid_hour_def at_time_def monday_morning_def
        us_day_def us_minute_def add_minutes_def shift_def timedelta_ok_def dt_max_def)

theorem slots_start_after_call_witness:
  "clock offline_env 0 \<le> clock offline_env 1
   \<and> list_all (\<lambda>s. clock offline_env (ticks empty_world) < start_time s)
        [make_slot (at_time monday_morning 11 0) (add_minutes (at_time monday_morning 11 0) 60) 60,
         make_slot (at_time monday_morning 14 0) (add_minutes (at_time monday_morning 14 0) 60) 60,
         make_slot (at_time monday_morning 16 0) (add_minutes (at_time monday_morning 16 0) 60) 60]"
proof -
  have mono: "\<And>i j. i \<le> j \<Longrightarrow> clock offline_env i \<le> clock offline_env j"
    by (simp add: offline_env_def)
  show ?thesis
    using mono slots_start_after_call [OF mono offline_slots] by simp
qed

text \<open>
  C8. The slots that the availability check produces, which are the ones that
  \<open>process_message\<close> stores in the session, are at most three and each is marked
  available.
\<close>

theorem check_availability_at_most_three:
  assumes "check_availability env info w = (Inr slots, w')"
  shows "length slots \<le> 3 \<and> list_all available slots"
  using assms
  by (auto simp: check_availability_def offer_def list_all_iff
           split: prod.splits sum.splits)

lemma today_slots:
  "fst (check_availability offline_env [(''day'', JStr ''today'')] empty_world)
   = Inr [eleven,
          \<lparr>start_time = at_time monday_morning 14 0,
           end_time = add_minutes (at_time monday_morning 14 0) 60,
           available = True, display = ''02:00 PM''\<rparr>,
          \<lparr>start_time = at_time monday_morning 16 0,
           end_time = add_minutes (at_time monday_morning 16 0) 60,
           available = True, display = ''04:00 PM''\<rparr>]"
  by code_simp

theorem check_availability_at_most_three_witness:
  "length [eleven,
          \<lparr>start_time = at_time monday_morning 14 0,
           end_time = add_minutes (at_time monday_morning 14 0) 60,
           available = True, display = ''02:00 PM''\<rparr>,
          \<lparr>start_time = at_time monday_morning 16 0,
           end_time = add_minutes (at_time monday_morning 16 0) 60,
           available = True, display = ''04:00 PM''\<rparr>] \<le> 3
   \<and> list_all available
        [eleven,
          \<lparr>start_time = at_time monday_morning 14 0,
           end_time = add_minutes (at_time monday_morning 14 0) 60,
           available = True, display = ''02:00 PM''\<rparr>,
          \<lparr>start_time = at_time monday_morning 16 0,
           end_time = add_minutes (at_time monday_morning 16 0) 60,
           available = True, display = ''04:00 PM''\<rparr>]"
proof -
  have "check_availability offline_env [(''day'', JStr ''today'')] empty_world
        = (Inr [eleven,
          \<lparr>start_time = at_time monday_morning 14 0,
           end_time = add_minutes (at_time monday_morning 14 0) 60,
           available = True, display = ''02:00 PM''\<rparr>,
          \<lparr>start_time = at_time monday_morning 16 0,
           end_time = add_minutes (at_time monday_morning 16 0) 60,
           available = True, display = ''04:00 PM''\<rparr>],
           snd (check_availability offline_env [(''day'', JStr ''today'')] empty_world))"
    using today_slots by (metis prod.collapse)
  from check_availability_at_most_three [OF this] show ?thesis .
qed

section \<open>Confirming a booking\<close>

text \<open>
  C5. For a session of the store and a slot index below 0 or not below the number of
  offered slots, \<open>confirm_booking\<close> returns the failure \<open>Invalid slot selection\<close> and
  leaves the world as it was: no call of \<open>create_event\<close>, and the session store, with
  the messages, the extracted info, the offered slots and the confirmation flag of every
  session, unchanged.
\<close>

theorem confirm_booking_out_of_bounds:
  assumes "sessions w sid = Some state"
      and "slot_index < 0 \<or> int (length (available_slots state)) \<le> slot_index"
  shows "confirm_booking env sid slot_index w
         = (Inr \<lparr>success = False, message = ''Invalid slot selection'', details = None\<rparr>, w)"
  using assms by (auto simp: confirm_booking_def failure_def)

theorem confirm_booking_out_of_bounds_witness:
  "sessions offered_world ''s1'' = Some offered_session
   \<and> (1 < (0::int) \<or> int (length (available_slots offered_session)) \<le> 1)
   \<and> confirm_booking offline_env ''s1'' 1 offered_world
       = (Inr \<lparr>success = False, message = ''Invalid slot selection'', details = None\<rparr>,
          offered_world)"
proof -
  have s: "sessions offered_world ''s1'' = Some offered_session"
    by (simp add: offered_world_def)
  have i: "1 < (0::int) \<or> int (length (available_slots offered_session)) \<le> 1"
    by (simp add: offered_session_def)
  show ?thesis
    using s i confirm_booking_out_of_bounds [OF s i, of offline_env] by simp
qed

section \<open>Intent without the language model\<close>

text \<open>
  A message without double quote that contains a scheduling verb is classified as
  \<open>book_appointment\<close>.
\<close>

lemma contains_lower: "contains w s \<Longrightarrow> contains (lower w) (lower s)"
proof (induction s)
  case Nil
  then show ?case by (simp add: lower_def)
next
  case (Cons c cs)
  from Cons.prems have "prefix w (c # cs) \<or> contains w cs" by simp
  then show ?case
  proof
    assume "prefix w (c # cs)"
    then have "prefix (lower w) (lower (c # cs))"
      unfolding lower_def by (rule map_mono_prefix)
    then show ?thesis by (simp add: lower_Cons)
  next
    assume "contains w cs"
    then have "contains (lower w) (lower cs)" by (rule Cons.IH)
    then show ?thesis by (simp add: lower_Cons)
  qed
qed

lemma scheduling_verb_books:
  assumes offline: "llm env = None"
      and plain: "dq \<notin> set m"
      and verb: "contains ''book'' m \<or> contains ''schedule'' m \<or> contains ''meeting'' m"
  shows "understand_intent env m = ''book_appointment''"
proof -
  have whole: "takeWhile (\<lambda>c. c \<noteq> dq) m = m"
    using plain by (auto simp: takeWhile_eq_all_conv)
  have "contains ''book'' (lower m) \<or> contains ''schedule'' (lower m)
        \<or> contains ''meeting'' (lower m)"
    using verb contains_lower [of "''book''" m] contains_lower [of "''schedule''" m]
      contains_lower [of "''meeting''" m]
    by (auto simp: lower_def lower_char_bits)
  then show ?thesis
    by (auto simp: understand_intent_offline [OF offline] whole any_in_def)
qed

text \<open>
  C1. The message \<open>"Sync" meeting please\<close> contains the scheduling verb
  \<open>meeting\<close>, and without the language model its intent is
  \<open>general_conversation\<close>: the fallback reads the message back from the prompt as the
  text up to the first double quote, which here is empty.
\<close>

theorem quoted_keyword_is_conversation:
  "contains ''meeting'' (dq # ''Sync'' @ dq # '' meeting please'')
   \<and> understand_intent (env\<lparr>llm := None\<rparr>) (dq # ''Sync'' @ dq # '' meeting please'')
       = ''general_conversation''"
  by (simp add: understand_intent_offline dq_def any_in_def lower_def lower_char_bits)

section \<open>The offered slots of a session\<close>

text \<open>
  The slots that a session holds after \<open>process_message\<close> are the ones it held, or
  at most three slots, each marked available.
\<close>

lemma respond_slots:
  assumes "respond env msg it sd w = (Inr (reply, sd'), w')"
  shows "available_slots sd' = available_slots sd \<or> available_slots sd' = []
         \<or> (\<exists>info v v'. check_availability env info v = (Inr (available_slots sd'), v'))"
  using assms unfolding respond_def
  by (auto split: prod.splits sum.splits json.splits if_splits)


lemma offered_bounds:
  "check_availability env info w = (Inr slots, w') \<Longrightarrow>
     length slots \<le> 3 \<and> list_all available slots"
  by (auto simp: check_availability_def offer_def list_all_iff
           split: prod.splits sum.splits)

lemma process_message_offers:
  assumes "process_message env msg sid w = (Inr reply, w')"
  shows "\<exists>sd. sessions w' sid = Some sd \<and> reply_slots reply = available_slots sd
           \<and> (available_slots sd
                  = (case sessions w sid of None \<Rightarrow> [] | Some old \<Rightarrow> available_slots old)
                \<or> length (available_slots sd) \<le> 3 \<and> list_all available (available_slots sd))"
proof -
  define sd0 where
    "sd0 = say ''user'' msg (case sessions w sid of None \<Rightarrow> new_session sid | Some sd \<Rightarrow> sd)"
  define w0 where "w0 = w\<lparr>sessions := (sessions w)(sid \<mapsto> sd0)\<rparr>"
  obtain r1 w1 where run: "respond env msg (understand_intent env msg) sd0 w0 = (r1, w1)"
    by (cases "respond env msg (understand_intent env msg) sd0 w0")
  from assms run obtain answer changed where
    r1: "r1 = Inr (answer, changed)" and
    reply: "reply_slots reply = available_slots (say ''assistant'' answer changed)" and
    w': "w' = w1\<lparr>sessions := (sessions w1)(sid \<mapsto> say ''assistant'' answer changed)\<rparr>"
    by (auto simp: process_message_def Let_def sd0_def [symmetric] w0_def [symmetric]
             split: sum.splits prod.splits)
  have old: "available_slots sd0
             = (case sessions w sid of None \<Rightarrow> [] | Some old \<Rightarrow> available_slots old)"
    by (simp add: sd0_def say_def new_session_def split: option.splits)
  from respond_slots [OF run [unfolded r1]]
  have "available_slots changed = available_slots sd0
        \<or> length (available_slots changed) \<le> 3 \<and> list_all available (available_slots changed)"
    by (auto dest: offered_bounds)
  with reply w' old show ?thesis
    by (simp add: say_def)
qed

section \<open>The session store\<close>

lemma process_message_messages:
  assumes "process_message env msg sid w = (r, w')"
  shows "(\<exists>sd. sessions w' sid = Some sd
            \<and> messages sd =
                (case sessions w sid of None \<Rightarrow> [] | Some old \<Rightarrow> messages old)
                @ \<lparr>role = ''user'', content = msg\<rparr>
                # (case r of
                     Inl e \<Rightarrow> []
                   | Inr reply \<Rightarrow> [\<lparr>role = ''assistant'', content = response reply\<rparr>]))
         \<and> (\<forall>other. other \<noteq> sid \<longrightarrow> sessions w' other = sessions w other)"
proof -
  define sd0 where "sd0 = say ''user'' msg (case sessions w sid of None \<Rightarrow> new_session sid | Some sd \<Rightarrow> sd)"
  define w0 where "w0 = w\<lparr>sessions := (sessions w)(sid \<mapsto> sd0)\<rparr>"
  obtain r1 w1 where run: "respond env msg (understand_intent env msg) sd0 w0 = (r1, w1)"
    by (cases "respond env msg (understand_intent env msg) sd0 w0")
  note fr = respond_frame [OF run]
  have m0: "messages sd0 = (case sessions w sid of None \<Rightarrow> [] | Some old \<Rightarrow> messages old)
                @ [\<lparr>role = ''user'', content = msg\<rparr>]"
    by (simp add: sd0_def say_def new_session_def split: option.splits)
  show ?thesis
  proof (cases r1)
    case (Inl e)
    with assms run have "r = Inl e" "w' = w1"
      by (simp_all add: process_message_def Let_def sd0_def [symmetric] w0_def [symmetric])
    with fr m0 show ?thesis by (simp add: w0_def)
  next
    case (Inr p)
    obtain reply changed where p: "p = (reply, changed)" by (cases p)
    from assms run Inr p
    have r: "r = Inr \<lparr>response = reply,
                    reply_slots = available_slots (say ''assistant'' reply changed),
                    reply_session_id = sid,
                    intent = understand_intent env msg,
                    reply_extracted_info = extracted_info (say ''assistant'' reply changed)\<rparr>"
      and w': "w' = w1\<lparr>sessions := (sessions w1)(sid \<mapsto> say ''assistant'' reply changed)\<rparr>"
      by (simp_all add: process_message_def Let_def sd0_def [symmetric] w0_def [symmetric])
    from fr Inr p have "messages changed = messages sd0" and "sessions w1 = sessions w0"
      by simp_all
    with r w' m0 show ?thesis by (simp add: say_def w0_def)
  qed
qed

text \<open>
  C9. After a call of \<open>process_message\<close> with message \<open>m\<close> and session id \<open>s\<close> that
  returns, the store holds a session for \<open>s\<close>, whose message list is its previous value,
  empty for a new id, followed by exactly two entries: the user's entry for \<open>m\<close> and the
  assistant's entry for the response returned. No session is evicted: every other session
  is as it was.
\<close>

theorem process_message_appends:
  assumes "process_message env msg sid w = (Inr reply, w')"
  shows "(\<exists>sd. sessions w' sid = Some sd
            \<and> messages sd =
                (case sessions w sid of None \<Rightarrow> [] | Some old \<Rightarrow> messages old)
                @ [\<lparr>role = ''user'', content = msg\<rparr>,
                   \<lparr>role = ''assistant'', content = response reply\<rparr>])
         \<and> (\<forall>other. other \<noteq> sid \<longrightarrow> sessions w' other = sessions w other)"
  using process_message_messages [OF assms] by simp

lemma hello_reply:
  "fst (process_message offline_env ''hello'' ''s1'' empty_world)
   = Inr \<lparr>response = ''Hi! I'' @ [CHR 0x27]
                        @ ''m your calendar assistant. What would you like to schedule today?'',
          reply_slots = [], reply_session_id = ''s1'', intent = ''general_conversation'',
          reply_extracted_info = []\<rparr>"
  by code_simp

theorem process_message_appends_witness:
  "\<exists>sd. sessions (snd (process_message offline_env ''hello'' ''s1'' empty_world)) ''s1'' = Some sd
        \<and> messages sd =
            [\<lparr>role = ''user'', content = ''hello''\<rparr>,
             \<lparr>role = ''assistant'',
              content = ''Hi! I'' @ [CHR 0x27]
                        @ ''m your calendar assistant. What would you like to schedule today?''\<rparr>]"
proof -
  have "process_message offline_env ''hello'' ''s1'' empty_world
        = (Inr \<lparr>response = ''Hi! I'' @ [CHR 0x27]
                        @ ''m your calendar assistant. What would you like to schedule today?'',
                reply_slots = [], reply_session_id = ''s1'', intent = ''general_conversation'',
                reply_extracted_info = []\<rparr>,
           snd (process_message offline_env ''hello'' ''s1'' empty_world))"
    using hello_reply by (metis prod.collapse)
  from process_message_appends [OF this] show ?thesis
    by (simp add: empty_world_def)
qed

text \<open>
  A call of \<open>process_message\<close> can raise. The language model answers
  \<open>Book a meeting at 3 PM\<close> with an object whose day is \<open>null\<close>: the direct booking
  fails on it, the availability check raises, and nothing is returned; the store holds
  the session with the user's entry.
\<close>

lemma null_day_raises:
  "fst (process_message null_day_env ''Book a meeting at 3 PM'' ''s1'' empty_world)
     = Inl AttributeError
   \<and> map_option messages
        (sessions (snd (process_message null_day_env ''Book a meeting at 3 PM'' ''s1''
                          empty_world)) ''s1'')
     = Some [\<lparr>role = ''user'', content = ''Book a meeting at 3 PM''\<rparr>]"
  by code_simp

section \<open>Booking\<close>

text \<open>
  The direct booking refuses a start time that is not after the clock (the end time, an
  hour later, is computed first), and calls \<open>create_event\<close> only for a start time
  after the clock as it read it.
\<close>

lemma direct_book_rejects_past:
  assumes "parse_date env (get_or info ''day'' (JStr ''tomorrow'')) w = (Inr target_date, w1)"
      and "get_or info ''time'' (JStr []) = JStr time_text"
      and "parse_clock_time (lower time_text) = (hour, minute)"
      and "replace_time target_date hour minute = Some start"
      and "shift start (60 * us_minute) = Some finish"
      and "start \<le> clock env (ticks w1)"
  shows "direct_book_appointment env info w
         = (\<lparr>success = False, message = past_rejection start, details = None\<rparr>,
            w1\<lparr>ticks := Suc (ticks w1)\<rparr>)"
  using assms by (simp add: direct_book_appointment_def failure_def)

lemma direct_book_only_ahead:
  assumes "direct_book_appointment env info w = (b, w')"
  shows "create_event_calls w' = create_event_calls w
         \<or> (\<exists>req. create_event_calls w' = create_event_calls w @ [req]
               \<and> clock env (Suc (ticks w)) < req_start_time req)"
  using assms unfolding direct_book_appointment_def
  by (auto simp: Let_def split: prod.splits sum.splits json.splits option.splits if_splits
           dest!: parse_date_frame create_event_frame)

text \<open>
  C3. At 10:00 the message \<open>book a call today at 8am\<close> is refused as past and the slots
  of 11:00, 14:00 and 16:00 are offered. A day later the slot of 11:00 lies in the past;
  \<open>confirm_booking\<close> for it returns success and has called \<open>create_event\<close> with that
  start time.
\<close>

theorem confirm_booking_books_past_slot:
  "case process_message late_env ''book a call today at 8am'' ''s1'' empty_world of
     (r1, w1) \<Rightarrow>
       (case confirm_booking late_env ''s1'' 0 w1 of
          (r2, w2) \<Rightarrow>
            map_option (map start_time \<circ> available_slots) (sessions w1 ''s1'')
              = Some [at_time monday_morning 11 0, at_time monday_morning 14 0,
                      at_time monday_morning 16 0]
            \<and> at_time monday_morning 11 0 < clock late_env (ticks w1)
            \<and> (case r2 of Inr b \<Rightarrow> success b | Inl e \<Rightarrow> False)
            \<and> map req_start_time (create_event_calls w2) = [at_time monday_morning 11 0])"
  by code_simp

section \<open>Extraction\<close>

text \<open>
  A message that contains a day token, and not the words that select the JSON branch of
  the fallback, is extracted by the regular expressions, with \<open>has_time_info\<close> true
  and a day.
\<close>

lemma re_search_words:
  assumes "w \<in> set ws" and "contains w s"
  shows "re_search (match_words ws) s \<noteq> None"
  using assms(2)
proof (induction s)
  case Nil
  with assms(1) show ?case by (auto simp: match_words_def find_None_iff)
next
  case (Cons c cs)
  show ?case
  proof (cases "match_words ws (c # cs)")
    case (Some a)
    then show ?thesis by simp
  next
    case None
    with assms(1) have "\<not> prefix w (c # cs)"
      by (auto simp: match_words_def find_None_iff)
    with Cons show ?thesis using None by simp
  qed
qed

lemma dict_get_set: "dict_get (dict_set k v d) k' = (if k' = k then Some v else dict_get d k')"
  by (induction d) (auto simp: dict_get_def)

lemma day_token_found:
  assumes "d \<in> set [''tomorrow'', ''today'', ''monday'', ''tuesday'', ''wednesday'',
                      ''thursday'', ''friday'', ''saturday'', ''sunday'']"
      and "contains d text"
  shows "first_match day_patterns text \<noteq> None"
proof -
  from assms(1) have "d \<in> set [''today'', ''tomorrow'']
      \<or> d \<in> set [''monday'', ''tuesday'', ''wednesday'', ''thursday'', ''friday'',
                   ''saturday'', ''sunday'']"
    by auto
  then show ?thesis
  proof
    assume "d \<in> set [''today'', ''tomorrow'']"
    from re_search_words [OF this assms(2)] show ?thesis
      by (auto simp: day_patterns_def)
  next
    assume "d \<in> set [''monday'', ''tuesday'', ''wednesday'', ''thursday'', ''friday'',
                       ''saturday'', ''sunday'']"
    from re_search_words [OF this assms(2)] show ?thesis
      by (auto simp: day_patterns_def split: option.splits)
  qed
qed

lemma regex_extract_day:
  assumes "first_match day_patterns (lower m) \<noteq> None"
  shows "dict_get (regex_extract m) ''has_time_info'' = Some (JBool True)
         \<and> (\<exists>t. dict_get (regex_extract m) ''day'' = Some (JStr t))"
  using assms unfolding regex_extract_def Let_def
  by (auto simp: dict_get_set split: option.splits)

lemma day_token_extracted:
  assumes offline: "llm env = None"
      and plain: "\<not> contains ''extract booking information'' (lower m)"
      and token: "d \<in> set [''tomorrow'', ''today'', ''monday'', ''tuesday'', ''wednesday'',
                            ''thursday'', ''friday'', ''saturday'', ''sunday'']"
      and occurs: "contains d m"
  shows "\<exists>info t. extract_details env m = JObj info
           \<and> dict_get info ''has_time_info'' = Some (JBool True)
           \<and> dict_get info ''day'' = Some (JStr t)"
proof -
  have "lower d = d"
    using token by (auto simp: lower_def lower_char_bits)
  with contains_lower [OF occurs] have "contains d (lower m)" by simp
  from regex_extract_day [OF day_token_found [OF token this]]
  show ?thesis
    by (simp add: extract_details_offline [OF offline plain])
qed

text \<open>
  C2. The message \<open>extract booking information tuesday\<close> contains the day token
  \<open>tuesday\<close>. Without the language model its extraction has \<open>has_time_info\<close> true and
  no day: the words of the message make the fallback answer with its own JSON, which knows
  no Tuesday, and the regular expressions are not tried.
\<close>

theorem tuesday_has_no_day:
  "contains ''tuesday'' ''extract booking information tuesday''
   \<and> extract_details offline_env ''extract booking information tuesday''
       = JObj [(''has_time_info'', JBool True), (''type'', JStr ''appointment'')]
   \<and> dict_get [(''has_time_info'', JBool True), (''type'', JStr ''appointment'')] ''day'' = None"
  by code_simp

text \<open>
  C6. Without the language model, the message
  \<open>I want to schedule a call for tomorrow afternoon\<close> is extracted as has_time_info true,
  day tomorrow, time afternoon, type call, and \<open>process_message\<close> answers with a
  non-empty response. The appointment is booked directly, and that branch does not store
  the extracted record: the extracted info that the call returns, and that the session
  keeps, is empty.
\<close>

theorem schedule_call_returns_no_extracted_info:
  "extract_details offline_env ''I want to schedule a call for tomorrow afternoon''
     = JObj [(''has_time_info'', JBool True), (''time'', JStr ''afternoon''),
             (''day'', JStr ''tomorrow''), (''type'', JStr ''call'')]
   \<and> (case process_message offline_env ''I want to schedule a call for tomorrow afternoon''
               ''s1'' empty_world of
        (r, w) \<Rightarrow>
          (case r of
             Inl e \<Rightarrow> False
           | Inr reply \<Rightarrow>
               response reply \<noteq> [] \<and> intent reply = ''book_appointment''
               \<and> reply_extracted_info reply = [])
          \<and> map_option extracted_info (sessions w ''s1'') = Some []
          \<and> map_option booking_confirmed (sessions w ''s1'') = Some True
          \<and> length (create_event_calls w) = 1)"
  by code_simp

section \<open>Failing collaborators\<close>





















section \<open>Choosing a slot in the conversation\<close>









end
